theory Spec2Isabelle
  imports Main "HOL-Library.Multiset"
begin

section \<open>JavaScript values used by the declaration routes\<close>

text \<open>
  Strings are byte lists: an ASCII string is itself, and a character outside ASCII is its
  UTF-8 bytes. The handlers only test strings for emptiness, concatenate them and compare
  them, so the model never counts characters.
\<close>

definition falsy :: "string option \<Rightarrow> bool" where
  \<comment> \<open>\<open>!x\<close> for a value that is \<open>undefined\<close>, \<open>null\<close> or a string (a screenshot path, the
      text of an error)\<close>
  "falsy x = (case x of None \<Rightarrow> True | Some s \<Rightarrow> s = [])"

definition is_digit :: "char \<Rightarrow> bool" where
  "is_digit c = (c \<in> set ''0123456789'')"

definition digit_val :: "char \<Rightarrow> nat" where
  "digit_val c = of_char c - 48"

fun show_nat :: "nat \<Rightarrow> string" where
  \<comment> \<open>a non-negative integer inside a template literal\<close>
  "show_nat n = (if n < 10 then [char_of (48 + n)]
                 else show_nat (n div 10) @ [char_of (48 + n mod 10)])"

subsection \<open>JSON.parse\<close>

text \<open>
  \<open>JSON.parse\<close> is the platform function the POST handler calls on the \<open>aiTools\<close> field.
  It is modelled after the JSON grammar (ECMA-404): a lexer from characters to tokens and a
  stack automaton from tokens to a value. \<open>None\<close> is the \<open>SyntaxError\<close>. A number keeps its
  literal text and an object its members as written; no handler computes with them.
\<close>

datatype json =
    JNull
  | JBool bool
  | JNumber string
  | JString string
  | JArray "json list"
  | JObject "(string \<times> json) list"

datatype token =
    TLBracket | TRBracket | TLBrace | TRBrace | TComma | TColon
  | TString string | TNumber string | TTrue | TFalse | TNull

definition is_ws :: "char \<Rightarrow> bool" where
  "is_ws c = (c = CHR '' '' \<or> c = CHR 0x09 \<or> c = CHR 0x0A \<or> c = CHR 0x0D)"

definition is_control :: "char \<Rightarrow> bool" where
  \<comment> \<open>U+0000 .. U+001F, which a JSON string must escape\<close>
  "is_control c = ((of_char c :: nat) < 0x20)"

definition is_hex :: "char \<Rightarrow> bool" where
  "is_hex c = (c \<in> set ''0123456789abcdefABCDEF'')"

definition hex_val :: "char \<Rightarrow> nat" where
  "hex_val c = (if is_digit c then of_char c - 48
                else if c \<in> set ''abcdef'' then of_char c - 87
                else of_char c - 55)"

definition hex4 :: "string \<Rightarrow> nat option" where
  "hex4 s = (if length s = 4 \<and> list_all is_hex s
             then Some (foldl (\<lambda>n c. 16 * n + hex_val c) 0 s) else None)"

definition utf8 :: "nat \<Rightarrow> string" where
  \<comment> \<open>the bytes of a code point (a lone surrogate is written like any three-byte code point)\<close>
  "utf8 n =
     (if n < 0x80 then [char_of n]
      else if n < 0x800 then [char_of (0xC0 + n div 64), char_of (0x80 + n mod 64)]
      else if n < 0x10000 then
        [char_of (0xE0 + n div 4096), char_of (0x80 + (n div 64) mod 64), char_of (0x80 + n mod 64)]
      else
        [char_of (0xF0 + n div 262144), char_of (0x80 + (n div 4096) mod 64),
         char_of (0x80 + (n div 64) mod 64), char_of (0x80 + n mod 64)])"

definition simple_escape :: "char \<Rightarrow> char option" where
  "simple_escape e =
     (if e = CHR 0x22 then Some (CHR 0x22)
      else if e = CHR 0x5C then Some (CHR 0x5C)
      else if e = CHR ''/'' then Some (CHR ''/'')
      else if e = CHR ''b'' then Some (CHR 0x08)
      else if e = CHR ''f'' then Some (CHR 0x0C)
      else if e = CHR ''n'' then Some (CHR 0x0A)
      else if e = CHR ''r'' then Some (CHR 0x0D)
      else if e = CHR ''t'' then Some (CHR 0x09)
      else None)"

definition low_escape :: "string \<Rightarrow> nat option" where
  \<comment> \<open>the six characters \<open>\uDC00\<close> .. \<open>\uDFFF\<close>: the second half of a surrogate pair\<close>
  "low_escape s =
     (if take 2 s = [CHR 0x5C, CHR ''u''] then
        (case hex4 (drop 2 s) of
           None \<Rightarrow> None
         | Some lo \<Rightarrow> if 0xDC00 \<le> lo \<and> lo < 0xE000 then Some lo else None)
      else None)"

definition high_surrogate :: "nat \<Rightarrow> bool" where
  "high_surrogate u = (0xD800 \<le> u \<and> u < 0xDC00)"

definition pair_code :: "nat \<Rightarrow> nat \<Rightarrow> nat" where
  \<comment> \<open>the code point of a surrogate pair\<close>
  "pair_code hi lo = 0x10000 + (hi - 0xD800) * 0x400 + (lo - 0xDC00)"

fun lex_string :: "string \<Rightarrow> string \<Rightarrow> (string \<times> string) option" where
  \<comment> \<open>the characters after an opening quote: the decoded string and what follows the closing quote\<close>
  "lex_string acc [] = None"
| "lex_string acc (c # cs) =
     (if c = CHR 0x22 then Some (acc, cs)
      else if c = CHR 0x5C then
        (case cs of
           [] \<Rightarrow> None
         | e # r \<Rightarrow>
             if e = CHR ''u'' then
               (case hex4 (take 4 r) of
                  None \<Rightarrow> None
                | Some u \<Rightarrow>
                    if high_surrogate u then
                      (case low_escape (take 6 (drop 4 r)) of
                         Some lo \<Rightarrow> lex_string (acc @ utf8 (pair_code u lo)) (drop 10 r)
                       | None \<Rightarrow> lex_string (acc @ utf8 u) (drop 4 r))
                    else lex_string (acc @ utf8 u) (drop 4 r))
             else
               (case simple_escape e of
                  None \<Rightarrow> None
                | Some ch \<Rightarrow> lex_string (acc @ [ch]) r))
      else if is_control c then None
      else lex_string (acc @ [c]) cs)"

definition int_part :: "string \<Rightarrow> (string \<times> string) option" where
  "int_part s =
     (case s of
        [] \<Rightarrow> None
      | c # r \<Rightarrow>
          if c = CHR ''0'' then Some ([c], r)
          else if is_digit c then Some (c # takeWhile is_digit r, dropWhile is_digit r)
          else None)"

definition frac_part :: "string \<Rightarrow> (string \<times> string) option" where
  "frac_part s =
     (case s of
        [] \<Rightarrow> Some ([], s)
      | c # r \<Rightarrow>
          if c = CHR ''.'' then
            (if takeWhile is_digit r = [] then None
             else Some (c # takeWhile is_digit r, dropWhile is_digit r))
          else Some ([], s))"

definition exp_part :: "string \<Rightarrow> (string \<times> string) option" where
  "exp_part s =
     (case s of
        [] \<Rightarrow> Some ([], s)
      | c # r \<Rightarrow>
          if c = CHR ''e'' \<or> c = CHR ''E'' then
            (let sg = (case r of
                         [] \<Rightarrow> []
                       | d # r2 \<Rightarrow> if d = CHR ''+'' \<or> d = CHR ''-'' then [d] else []);
                 r' = drop (length sg) r
             in if takeWhile is_digit r' = [] then None
                else Some (c # sg @ takeWhile is_digit r', dropWhile is_digit r'))
          else Some ([], s))"

definition lex_number :: "string \<Rightarrow> (string \<times> string) option" where
  \<comment> \<open>\<open>-?(0|[1-9][0-9]*)(\.[0-9]+)?([eE][+-]?[0-9]+)?\<close>: the literal and what follows it\<close>
  "lex_number s =
     (let sg = (case s of [] \<Rightarrow> [] | c # r \<Rightarrow> if c = CHR ''-'' then [c] else []) in
      case int_part (drop (length sg) s) of
        None \<Rightarrow> None
      | Some (ip, s2) \<Rightarrow>
          (case frac_part s2 of
             None \<Rightarrow> None
           | Some (fp, s3) \<Rightarrow>
               (case exp_part s3 of
                  None \<Rightarrow> None
                | Some (ep, s4) \<Rightarrow> Some (sg @ ip @ fp @ ep, s4))))"

lemma lex_string_shorter:
  "lex_string acc cs = Some (s, rest) \<Longrightarrow> length rest < length cs"
proof (induction acc cs rule: lex_string.induct)
  case (1 acc)
  then show ?case by simp
next
  case (2 acc c cs)
  note p = "2.prems"
  show ?case
  proof (cases "c = CHR 0x22")
    case True
    with p show ?thesis by simp
  next
    case q: False
    show ?thesis
    proof (cases "c = CHR 0x5C")
      case False
      with q p have "\<not> is_control c" and "lex_string (acc @ [c]) cs = Some (s, rest)"
        by (simp_all split: if_splits)
      then have "length rest < length cs" by (rule "2.IH"(5) [OF q False])
      then show ?thesis by simp
    next
      case b: True
      then obtain e r where cs: "cs = e # r"
        using p q by (cases cs) simp_all
      show ?thesis
      proof (cases "e = CHR ''u''")
        case False
        with q b cs p obtain ch where
          "simple_escape e = Some ch" and "lex_string (acc @ [ch]) r = Some (s, rest)"
          by (cases "simple_escape e") simp_all
        then have "length rest < length r" by (rule "2.IH"(4) [OF q b cs False])
        with cs show ?thesis by simp
      next
        case u: True
        with q b cs p obtain v where v: "hex4 (take 4 r) = Some v"
          by (cases "hex4 (take 4 r)") simp_all
        show ?thesis
        proof (cases "high_surrogate v")
          case False
          with q b cs u v p have "lex_string (acc @ utf8 v) (drop 4 r) = Some (s, rest)"
            by simp
          then have "length rest < length (drop 4 r)" by (rule "2.IH"(3) [OF q b cs u v False])
          with cs show ?thesis by simp
        next
          case hi: True
          show ?thesis
          proof (cases "low_escape (take 6 (drop 4 r))")
            case None
            with q b cs u v hi p have "lex_string (acc @ utf8 v) (drop 4 r) = Some (s, rest)"
              by simp
            then have "length rest < length (drop 4 r)"
              by (rule "2.IH"(1) [OF q b cs u v hi None])
            with cs show ?thesis by simp
          next
            case (Some lo)
            with q b cs u v hi p have
              "lex_string (acc @ utf8 (pair_code v lo)) (drop 10 r) = Some (s, rest)"
              by simp
            then have "length rest < length (drop 10 r)"
              by (rule "2.IH"(2) [OF q b cs u v hi Some])
            with cs show ?thesis by simp
          qed
        qed
      qed
    qed
  qed
qed

lemma dropWhile_shorter:
  "length (dropWhile P xs) \<le> length xs"
  "length (dropWhile P xs) \<le> Suc (length xs)"
  "length (dropWhile P xs) \<le> Suc (Suc (length xs))"
  using length_dropWhile_le [of P xs] by simp_all

lemma int_part_shorter: "int_part s = Some (a, r) \<Longrightarrow> length r < length s"
  by (auto simp: int_part_def less_Suc_eq_le dropWhile_shorter split: list.splits if_splits)

lemma frac_part_shorter: "frac_part s = Some (a, r) \<Longrightarrow> length r \<le> length s"
  by (auto simp: frac_part_def dropWhile_shorter split: list.splits if_splits)

lemma exp_part_shorter: "exp_part s = Some (a, r) \<Longrightarrow> length r \<le> length s"
  by (auto simp: exp_part_def Let_def dropWhile_shorter split: list.splits if_splits)

lemma lex_number_shorter:
  assumes "lex_number s = Some (n, rest)"
  shows "length rest < length s"
proof -
  define sg where "sg = (case s of [] \<Rightarrow> [] | c # r \<Rightarrow> if c = CHR ''-'' then [c] else [])"
  from assms obtain ip s2 where i: "int_part (drop (length sg) s) = Some (ip, s2)"
    unfolding lex_number_def Let_def sg_def
    by (cases "int_part (drop (length (case s of [] \<Rightarrow> [] | c # r \<Rightarrow> if c = CHR ''-'' then [c] else [])) s)")
       auto
  from assms i obtain fp s3 where f: "frac_part s2 = Some (fp, s3)"
    unfolding lex_number_def Let_def sg_def by (cases "frac_part s2") auto
  from assms i f obtain ep where e: "exp_part s3 = Some (ep, rest)"
    unfolding lex_number_def Let_def sg_def by (cases "exp_part s3") auto
  have "length s2 < length (drop (length sg) s)" using i by (rule int_part_shorter)
  moreover have "length s3 \<le> length s2" using f by (rule frac_part_shorter)
  moreover have "length rest \<le> length s3" using e by (rule exp_part_shorter)
  ultimately show ?thesis by simp
qed

function tokenize :: "string \<Rightarrow> token list option" where
  "tokenize [] = Some []"
| "tokenize (c # cs) =
     (if is_ws c then tokenize cs
      else if c = CHR ''['' then map_option ((#) TLBracket) (tokenize cs)
      else if c = CHR '']'' then map_option ((#) TRBracket) (tokenize cs)
      else if c = CHR ''{'' then map_option ((#) TLBrace) (tokenize cs)
      else if c = CHR ''}'' then map_option ((#) TRBrace) (tokenize cs)
      else if c = CHR '','' then map_option ((#) TComma) (tokenize cs)
      else if c = CHR '':'' then map_option ((#) TColon) (tokenize cs)
      else if c = CHR 0x22 then
        (case lex_string [] cs of
           None \<Rightarrow> None
         | Some (s, rest) \<Rightarrow> map_option ((#) (TString s)) (tokenize rest))
      else if c = CHR ''-'' \<or> is_digit c then
        (case lex_number (c # cs) of
           None \<Rightarrow> None
         | Some (n, rest) \<Rightarrow> map_option ((#) (TNumber n)) (tokenize rest))
      else if take 4 (c # cs) = ''true'' then map_option ((#) TTrue) (tokenize (drop 3 cs))
      else if take 5 (c # cs) = ''false'' then map_option ((#) TFalse) (tokenize (drop 4 cs))
      else if take 4 (c # cs) = ''null'' then map_option ((#) TNull) (tokenize (drop 3 cs))
      else None)"
  by pat_completeness auto
termination
proof (relation "measure length")
  fix c :: char and cs x y :: string and x2 :: "string \<times> string"
  assume "lex_string [] cs = Some x2" "(x, y) = x2"
  then show "(y, c # cs) \<in> measure length"
    using lex_string_shorter [of "[]" cs x y] by simp
next
  fix c :: char and cs x y :: string and x2 :: "string \<times> string"
  assume "lex_number (c # cs) = Some x2" "(x, y) = x2"
  then show "(y, c # cs) \<in> measure length"
    using lex_number_shorter [of "c # cs" x y] by simp
qed simp_all

datatype frame =
    FArr "json list"
  | FObj "(string \<times> json) list"
  | FKey "(string \<times> json) list" string

datatype expect = Value | ValueOrClose | KeyOrClose | Key | Colon | Sep | Done json

fun complete :: "json \<Rightarrow> frame list \<Rightarrow> (frame list \<times> expect) option" where
  \<comment> \<open>a value has been read: it is the whole text, the next element, or the value of a key\<close>
  "complete v [] = Some ([], Done v)"
| "complete v (FArr vs # st) = Some (FArr (vs @ [v]) # st, Sep)"
| "complete v (FKey ms k # st) = Some (FObj (ms @ [(k, v)]) # st, Sep)"
| "complete v (FObj ms # st) = None"

fun value_token :: "frame list \<Rightarrow> token \<Rightarrow> (frame list \<times> expect) option" where
  "value_token st (TString s) = complete (JString s) st"
| "value_token st (TNumber n) = complete (JNumber n) st"
| "value_token st TTrue = complete (JBool True) st"
| "value_token st TFalse = complete (JBool False) st"
| "value_token st TNull = complete JNull st"
| "value_token st TLBracket = Some (FArr [] # st, ValueOrClose)"
| "value_token st TLBrace = Some (FObj [] # st, KeyOrClose)"
| "value_token st _ = None"

fun key_token :: "frame list \<Rightarrow> token \<Rightarrow> (frame list \<times> expect) option" where
  "key_token (FObj ms # st) (TString k) = Some (FKey ms k # st, Colon)"
| "key_token _ _ = None"

fun close_token :: "frame list \<Rightarrow> token \<Rightarrow> (frame list \<times> expect) option" where
  "close_token (FArr vs # st) TRBracket = complete (JArray vs) st"
| "close_token (FObj ms # st) TRBrace = complete (JObject ms) st"
| "close_token _ _ = None"

fun step :: "frame list \<Rightarrow> expect \<Rightarrow> token \<Rightarrow> (frame list \<times> expect) option" where
  "step st Value t = value_token st t"
| "step st ValueOrClose t = (if t = TRBracket then close_token st t else value_token st t)"
| "step st KeyOrClose t = (if t = TRBrace then close_token st t else key_token st t)"
| "step st Key t = key_token st t"
| "step st Colon t = (if t = TColon then Some (st, Value) else None)"
| "step st Sep t =
     (if t = TComma then
        (case st of
           FArr vs # _ \<Rightarrow> Some (st, Value)
         | FObj ms # _ \<Rightarrow> Some (st, Key)
         | _ \<Rightarrow> None)
      else close_token st t)"
| "step st (Done v) t = None"

fun run :: "frame list \<Rightarrow> expect \<Rightarrow> token list \<Rightarrow> json option" where
  "run st e [] = (case e of Done v \<Rightarrow> Some v | _ \<Rightarrow> None)"
| "run st e (t # ts) = (case step st e t of None \<Rightarrow> None | Some (st', e') \<Rightarrow> run st' e' ts)"

definition JSON_parse :: "string \<Rightarrow> json option" where
  "JSON_parse s = (case tokenize s of None \<Rightarrow> None | Some ts \<Rightarrow> run [] Value ts)"

subsection \<open>The fields of a request body\<close>

text \<open>
  \<open>req.body\<close> is filled by one of the three body parsers of server/index.js and
  server/routes/declarations.js: \<open>express.json()\<close>, \<open>express.urlencoded({ extended: true })\<close>
  and multer. A field of it is therefore \<open>undefined\<close> (\<open>None\<close>) or any value that these
  parsers build: a text, and also a number, a boolean, \<open>null\<close>, an array or an object (a
  JSON body; a form field named \<open>userName[]\<close> or \<open>userName[first]\<close>). The handler tests a
  field with \<open>!x\<close> only, so the model keeps all of these values.

  \<open>!x\<close> is true for \<open>undefined\<close>, \<open>null\<close>, \<open>false\<close>, a number that is zero and the empty
  string; every array and every object is truthy. A number is kept as its literal, and the
  number it denotes is zero when its digits are all zero or when it is so small that it
  rounds to zero (at most \<open>2 ^ - 1075\<close>, half of the smallest positive number).
\<close>

definition digits_value :: "string \<Rightarrow> int" where
  "digits_value ds = foldl (\<lambda>n c. 10 * n + int (digit_val c)) 0 ds"

definition is_exp_mark :: "char \<Rightarrow> bool" where
  "is_exp_mark c = (c = CHR ''e'' \<or> c = CHR ''E'')"

definition significand :: "string \<Rightarrow> string" where
  \<comment> \<open>the digits of a number literal before its exponent\<close>
  "significand n = filter is_digit (takeWhile (\<lambda>c. \<not> is_exp_mark c) n)"

definition fraction_length :: "string \<Rightarrow> nat" where
  \<comment> \<open>how many of these digits stand after the point\<close>
  "fraction_length n =
     length (drop 1 (dropWhile (\<lambda>c. c \<noteq> CHR ''.'') (takeWhile (\<lambda>c. \<not> is_exp_mark c) n)))"

definition exponent :: "string \<Rightarrow> int" where
  "exponent n =
     (case drop 1 (dropWhile (\<lambda>c. \<not> is_exp_mark c) n) of
        [] \<Rightarrow> 0
      | c # ds \<Rightarrow>
          if c = CHR ''-'' then - digits_value ds
          else if c = CHR ''+'' then digits_value ds
          else digits_value (c # ds))"

definition zero_number :: "string \<Rightarrow> bool" where
  \<comment> \<open>the literal denotes \<open>m * 10 ^ x\<close>, up to its sign\<close>
  "zero_number n =
     (let m = digits_value (significand n);
          x = exponent n - int (fraction_length n)
      in m = 0 \<or> (x < 0 \<and> m * 2 ^ 1075 \<le> 10 ^ nat (- x)))"

fun truthy :: "json \<Rightarrow> bool" where
  "truthy JNull = False"
| "truthy (JBool b) = b"
| "truthy (JNumber n) = (\<not> zero_number n)"
| "truthy (JString s) = (s \<noteq> [])"
| "truthy (JArray vs) = True"
| "truthy (JObject ms) = True"

definition falsy_value :: "json option \<Rightarrow> bool" where
  \<comment> \<open>\<open>!x\<close> for a field of \<open>req.body\<close>\<close>
  "falsy_value x = (case x of None \<Rightarrow> True | Some v \<Rightarrow> \<not> truthy v)"

section \<open>The store, the disk and the responses\<close>

text \<open>
  One record for a row of \<open>ai_declarations\<close> (server/config/database.js) and for the
  client's \<open>Declaration\<close> interface (client/src/types/index.ts). On the server the five
  columns that the handler fills from the request hold the values it binds to the
  placeholders of the INSERT, whatever they are (how the driver writes a value that is not
  a string is not part of the repository), and \<open>created_at\<close> is the store's timestamp; on
  the client all of them are strings.
\<close>

record ('val, 'time) Declaration =
  decl_id :: nat
  user_name :: 'val
  assignment_title :: 'val
  ai_tool :: 'val
  usage_purpose :: 'val
  ai_content :: 'val
  screenshot_path :: "string option"
  created_at :: 'time

type_synonym row = "(json, nat) Declaration"

text \<open>
  The values of one INSERT, in the order of its placeholders:
  \<open>[userName, assignmentTitle, tool, usagePurpose, aiContent, screenshotPath]\<close>.
\<close>

type_synonym insert_values = "json \<times> json \<times> json \<times> json \<times> json \<times> string option"

text \<open>
  A response is its status and the fields of its JSON body; a field that is \<open>None\<close> is not
  in the body. \<open>count_field\<close> is the body's \<open>count\<close>.
\<close>

record response =
  status :: nat
  success :: bool
  message :: "string option"
  error :: "string option"
  count_field :: "nat option"
  data :: "row list option"

text \<open>
  The effects of a handler, recorded in the order in which they happen: an INSERT handed to
  \<open>pool.query\<close>, a file deleted, a line of \<open>console.error\<close>, a response sent. The state
  is the table in storage order, the paths of the files on the disk, and the effects so far.
\<close>

datatype event =
    Query insert_values
  | Unlink string
  | ConsoleError string
  | Respond response

record world =
  db :: "row list"
  disk :: "string set"
  trace :: "event list"

text \<open>
  What the handlers cannot decide: the environment variable, the fate of every query
  (\<open>pool.query\<close> resolves or rejects; on an INSERT the store assigns \<open>id\<close> and
  \<open>created_at\<close>), the upload directory and the suffix \<open>Date.now() + '-' + random\<close>. With
  them stands the platform's conversion of a value that is not a string to a text, which
  \<open>JSON.parse\<close> applies to its argument: \<open>ToString v\<close> is that text, and \<open>None\<close> when the
  conversion throws.
\<close>

datatype outcome = Committed nat nat | Rejected string

record env =
  NODE_ENV :: "string option"
  insert_outcome :: "nat \<Rightarrow> outcome"
  select_outcome :: "string option"
  uploadDir :: string
  uniqueSuffix :: string
  ToString :: "json \<Rightarrow> string option"

definition emit :: "event \<Rightarrow> world \<Rightarrow> world" where
  "emit e w = w\<lparr>trace := trace w @ [e]\<rparr>"

definition res_json :: "response \<Rightarrow> world \<Rightarrow> world" where
  "res_json r w = emit (Respond r) w"

fun responses :: "event list \<Rightarrow> response list" where
  "responses [] = []"
| "responses (Respond r # es) = r # responses es"
| "responses (_ # es) = responses es"

fun queries :: "event list \<Rightarrow> insert_values list" where
  "queries [] = []"
| "queries (Query v # es) = v # queries es"
| "queries (_ # es) = queries es"

definition unlinkSync :: "string \<Rightarrow> world \<Rightarrow> string + world" where
  \<comment> \<open>\<open>fs.unlinkSync\<close> throws when there is no such file\<close>
  "unlinkSync p w =
     (if p \<in> disk w then Inr (emit (Unlink p) (w\<lparr>disk := disk w - {p}\<rparr>))
      else Inl (''ENOENT: no such file or directory, unlink '' @ p))"

definition stored :: "nat \<Rightarrow> nat \<Rightarrow> insert_values \<Rightarrow> row" where
  "stored i t v =
     (case v of (u, a, tool, p, c, s) \<Rightarrow>
        \<lparr>decl_id = i, user_name = u, assignment_title = a, ai_tool = tool,
         usage_purpose = p, ai_content = c, screenshot_path = s, created_at = t\<rparr>)"

definition pool_insert :: "outcome \<Rightarrow> insert_values \<Rightarrow> world \<Rightarrow> world \<times> string option" where
  "pool_insert oc v w =
     (let w1 = emit (Query v) w in
      case oc of
        Committed i t \<Rightarrow> (w1\<lparr>db := db w1 @ [stored i t v]\<rparr>, None)
      | Rejected m \<Rightarrow> (w1, Some m))"

fun Promise_all_inserts ::
  "(nat \<Rightarrow> outcome) \<Rightarrow> nat \<Rightarrow> insert_values list \<Rightarrow> world \<Rightarrow> world \<times> string option" where
  \<comment> \<open>\<open>toolsArray.map\<close> starts every query; \<open>Promise.all\<close> rejects with the first rejection,
      and the other queries still settle. The model settles them in list order.\<close>
  "Promise_all_inserts oc i [] w = (w, None)"
| "Promise_all_inserts oc i (v # vs) w =
     (case pool_insert (oc i) v w of
        (w1, e1) \<Rightarrow>
          (case Promise_all_inserts oc (Suc i) vs w1 of
             (w2, e2) \<Rightarrow> (w2, case e1 of Some m \<Rightarrow> Some m | None \<Rightarrow> e2)))"

definition select_all :: "row list \<Rightarrow> row list" where
  \<comment> \<open>Modelled from the spec: \<open>SELECT * FROM ai_declarations ORDER BY created_at DESC\<close>, the
      SQL engine being outside the repository; ties are in storage order.\<close>
  "select_all rows = rev (sort_key created_at (rev rows))"

section \<open>server/routes/declarations.js\<close>

record upload =
  originalname :: string
  mimetype :: string
  fsize :: nat

record multer_file =
  path :: string
  filename :: string

text \<open>
  The five fields that the POST handler destructures from \<open>req.body\<close>, each \<open>undefined\<close>
  or a value of any kind.
\<close>

record form_fields =
  userName :: "json option"
  assignmentTitle :: "json option"
  aiTools :: "json option"
  usagePurpose :: "json option"
  aiContent :: "json option"

record request =
  body :: form_fields
  req_file :: "multer_file option"

record submission =
  text_fields :: form_fields
  screenshot :: "upload option"

subsection \<open>The upload filter\<close>

definition last_segment :: "string \<Rightarrow> string" where
  "last_segment p =
     rev (takeWhile (\<lambda>c. c \<noteq> CHR ''/'') (dropWhile (\<lambda>c. c = CHR ''/'') (rev p)))"

definition extname :: "string \<Rightarrow> string" where
  \<comment> \<open>Node's \<open>path.extname\<close>: from the last dot of the last segment to its end; empty when
      the segment has no dot or starts with its only dot (then nothing stands before the
      last dot), or is \<open>..\<close>\<close>
  "extname p =
     (let b = last_segment p;
          ext = rev (takeWhile (\<lambda>c. c \<noteq> CHR ''.'') (rev b));
          stem = rev (drop 1 (dropWhile (\<lambda>c. c \<noteq> CHR ''.'') (rev b)))
      in if stem = [] \<or> b = ''..'' then [] else CHR ''.'' # ext)"

definition to_lower :: "char \<Rightarrow> char" where
  "to_lower c = (if c \<in> set ''ABCDEFGHIJKLMNOPQRSTUVWXYZ'' then char_of (of_char c + (32::nat)) else c)"

definition toLowerCase :: "string \<Rightarrow> string" where
  "toLowerCase s = map to_lower s"

definition starts_with :: "string \<Rightarrow> string \<Rightarrow> bool" where
  "starts_with p s = (take (length p) s = p)"

fun contains :: "string \<Rightarrow> string \<Rightarrow> bool" where
  "contains p [] = (p = [])"
| "contains p (c # cs) = (starts_with p (c # cs) \<or> contains p cs)"

definition allowedTypes :: "string list" where
  \<comment> \<open>the alternatives of \<open>/jpeg|jpg|png|gif|webp/\<close>\<close>
  "allowedTypes = [''jpeg'', ''jpg'', ''png'', ''gif'', ''webp'']"

definition allowedTypes_test :: "string \<Rightarrow> bool" where
  \<comment> \<open>\<open>allowedTypes.test(s)\<close>: the expression has no anchors and no flags, so it looks for
      one of the alternatives anywhere in \<open>s\<close>\<close>
  "allowedTypes_test s = list_ex (\<lambda>alt. contains alt s) allowedTypes"

definition fileFilter :: "upload \<Rightarrow> string + bool" where
  "fileFilter f =
     (let extname_ok = allowedTypes_test (toLowerCase (extname (originalname f)));
          mimetype_ok = allowedTypes_test (mimetype f)
      in if extname_ok \<and> mimetype_ok then Inr True
         else Inl ''Only image files are allowed (jpeg, jpg, png, gif, webp)'')"

definition fileSize_limit :: nat where
  "fileSize_limit = 5 * 1024 * 1024"

definition upload_single :: "env \<Rightarrow> upload option \<Rightarrow> world \<Rightarrow> string + (multer_file option \<times> world)" where
  \<comment> \<open>\<open>upload.single('screenshot')\<close>: multer asks the filter, refuses a file larger than
      \<open>limits.fileSize\<close> (its documented maximum), and otherwise stores the file under the
      name given by \<open>storage.filename\<close>. A refused file is not on the disk afterwards.\<close>
  "upload_single e part w =
     (case part of
        None \<Rightarrow> Inr (None, w)
      | Some f \<Rightarrow>
          (case fileFilter f of
             Inl err \<Rightarrow> Inl err
           | Inr _ \<Rightarrow>
               if fsize f > fileSize_limit then Inl ''File too large''
               else
                 (let name = ''screenshot-'' @ uniqueSuffix e @ extname (originalname f);
                      p = uploadDir e @ ''/'' @ name
                  in Inr (Some \<lparr>path = p, filename = name\<rparr>, w\<lparr>disk := insert p (disk w)\<rparr>))))"

subsection \<open>GET /api/declarations\<close>

definition get_handler :: "env \<Rightarrow> world \<Rightarrow> world" where
  "get_handler e w =
     (case select_outcome e of
        None \<Rightarrow>
          (let rows = select_all (db w) in
           res_json \<lparr>status = 200, success = True, message = None, error = None,
                     count_field = Some (length rows), data = Some rows\<rparr> w)
      | Some msg \<Rightarrow>
          res_json \<lparr>status = 500, success = False, message = Some ''Failed to fetch declarations'',
                    error = Some msg, count_field = None, data = None\<rparr>
            (emit (ConsoleError msg) w))"

subsection \<open>POST /api/declarations\<close>

definition bound :: "json option \<Rightarrow> json" where
  \<comment> \<open>the value of a field that passed the \<open>!x\<close> test, which is not \<open>undefined\<close>\<close>
  "bound x = (case x of Some v \<Rightarrow> v | None \<Rightarrow> JNull)"

definition argument_text :: "env \<Rightarrow> json \<Rightarrow> string option" where
  \<comment> \<open>the text that \<open>JSON.parse(v)\<close> reads: \<open>v\<close> itself when it is a string, and the
      platform's conversion of \<open>v\<close> otherwise\<close>
  "argument_text e v = (case v of JString s \<Rightarrow> Some s | _ \<Rightarrow> ToString e v)"

definition cleanup :: "request \<Rightarrow> world \<Rightarrow> string + world" where
  \<comment> \<open>\<open>if (req.file) { fs.unlinkSync(req.file.path); }\<close>\<close>
  "cleanup req w = (case req_file req of None \<Rightarrow> Inr w | Some f \<Rightarrow> unlinkSync (path f) w)"

definition catch_block :: "request \<Rightarrow> string \<Rightarrow> world \<Rightarrow> world" where
  \<comment> \<open>the outer \<open>catch (error)\<close>; when \<open>unlinkSync\<close> throws inside it the handler's promise
      rejects and no response is sent\<close>
  "catch_block req msg w =
     (let w1 = emit (ConsoleError msg) w in
      case cleanup req w1 of
        Inl _ \<Rightarrow> w1
      | Inr w2 \<Rightarrow>
          res_json \<lparr>status = 500, success = False, message = Some ''Failed to create declaration'',
                    error = Some msg, count_field = None, data = None\<rparr> w2)"

definition reject :: "request \<Rightarrow> string \<Rightarrow> world \<Rightarrow> world" where
  \<comment> \<open>the two validation exits: delete the uploaded file, answer 400; an exception of
      \<open>unlinkSync\<close> lands in the outer catch\<close>
  "reject req msg w =
     (case cleanup req w of
        Inl err \<Rightarrow> catch_block req err w
      | Inr w1 \<Rightarrow>
          res_json \<lparr>status = 400, success = False, message = Some msg,
                    error = None, count_field = None, data = None\<rparr> w1)"

definition parse_tools :: "env \<Rightarrow> json \<Rightarrow> json list option" where
  \<comment> \<open>the inner \<open>try\<close>: \<open>JSON.parse\<close>, then \<open>Array.isArray\<close> and a non-zero length;
      \<open>None\<close> is the inner \<open>catch\<close>\<close>
  "parse_tools e v =
     (case argument_text e v of
        None \<Rightarrow> None
      | Some s \<Rightarrow>
          (case JSON_parse s of
             Some (JArray toolsArray) \<Rightarrow> if toolsArray = [] then None else Some toolsArray
           | _ \<Rightarrow> None))"

definition post_handler :: "env \<Rightarrow> request \<Rightarrow> world \<Rightarrow> world" where
  "post_handler e req w =
     (let b = body req in
      if falsy_value (userName b) \<or> falsy_value (assignmentTitle b) \<or> falsy_value (aiTools b)
         \<or> falsy_value (usagePurpose b) \<or> falsy_value (aiContent b)
      then reject req ''All fields except screenshot are required'' w
      else
        (case parse_tools e (bound (aiTools b)) of
           None \<Rightarrow> reject req ''Invalid AI tools format'' w
         | Some toolsArray \<Rightarrow>
             (let screenshotPath = map_option (\<lambda>f. ''/uploads/'' @ filename f) (req_file req);
                  inserts = map (\<lambda>tool. (bound (userName b), bound (assignmentTitle b), tool,
                                          bound (usagePurpose b), bound (aiContent b), screenshotPath))
                              toolsArray
              in case Promise_all_inserts (insert_outcome e) 0 inserts w of
                   (w1, Some msg) \<Rightarrow> catch_block req msg w1
                 | (w1, None) \<Rightarrow>
                     res_json \<lparr>status = 201, success = True,
                               message = Some (''Successfully created '' @ show_nat (length toolsArray)
                                               @ '' declaration(s)''),
                               error = None, count_field = None, data = None\<rparr> w1)))"

subsection \<open>server/index.js and server/utils/responses.js\<close>

definition error_middleware :: "env \<Rightarrow> string \<Rightarrow> world \<Rightarrow> world" where
  \<comment> \<open>the last \<open>app.use((err, req, res, next) => ...)\<close>; \<open>res.json\<close> drops a field that is
      \<open>undefined\<close>\<close>
  "error_middleware e msg w =
     res_json \<lparr>status = 500, success = False, message = Some ''Internal server error'',
               error = (if NODE_ENV e = Some ''development'' then Some msg else None),
               count_field = None, data = None\<rparr>
       (emit (ConsoleError msg) w)"

definition errorResponse :: "env \<Rightarrow> string \<Rightarrow> nat \<Rightarrow> string option \<Rightarrow> response" where
  \<comment> \<open>the body and status \<open>errorResponse(res, message, statusCode, error)\<close> sends; \<open>error\<close> is
      \<open>null\<close> or the text of an error (for a text that is not empty an \<open>Error\<close> object and a
      string behave alike)\<close>
  "errorResponse e msg statusCode err =
     \<lparr>status = statusCode, success = False, message = Some msg,
      error = (if \<not> falsy err \<and> NODE_ENV e = Some ''development'' then err else None),
      count_field = None, data = None\<rparr>"


definition POST_declarations :: "env \<Rightarrow> submission \<Rightarrow> world \<Rightarrow> world" where
  \<comment> \<open>\<open>router.post('/', upload.single('screenshot'), handler)\<close>: an error of the upload goes
      to the error middleware and the handler does not run\<close>
  "POST_declarations e sub w =
     (case upload_single e (screenshot sub) w of
        Inl err \<Rightarrow> error_middleware e err w
      | Inr (f, w1) \<Rightarrow> post_handler e \<lparr>body = text_fields sub, req_file = f\<rparr> w1)"

section \<open>client/src/pages/HomePage.tsx\<close>

type_synonym fetched = "(string, string) Declaration"

datatype js_error = TypeError

text \<open>
  A JavaScript object is the list of its own properties in the order of their creation.
  Reading a property that the object does not own finds the members of
  \<open>Object.prototype\<close>.
\<close>

type_synonym 'a js_object = "(string \<times> 'a) list"

definition Object_prototype :: "string list" where
  "Object_prototype =
     [''constructor'', ''__defineGetter__'', ''__defineSetter__'', ''hasOwnProperty'',
      ''__lookupGetter__'', ''__lookupSetter__'', ''isPrototypeOf'', ''propertyIsEnumerable'',
      ''toString'', ''valueOf'', ''__proto__'', ''toLocaleString'']"

datatype 'a property = Missing | Own 'a | Inherited

definition get_property :: "'a js_object \<Rightarrow> string \<Rightarrow> 'a property" where
  "get_property obj k =
     (case map_of obj k of
        Some v \<Rightarrow> Own v
      | None \<Rightarrow> if k \<in> set Object_prototype then Inherited else Missing)"

fun set_property :: "'a js_object \<Rightarrow> string \<Rightarrow> 'a \<Rightarrow> 'a js_object" where
  "set_property [] k v = [(k, v)]"
| "set_property ((k', v') # obj) k v =
     (if k' = k then (k, v) # obj else (k', v') # set_property obj k v)"

definition index_value :: "string \<Rightarrow> nat" where
  "index_value k = foldl (\<lambda>n c. 10 * n + digit_val c) 0 k"

definition is_array_index :: "string \<Rightarrow> bool" where
  \<comment> \<open>the canonical decimal text of an integer below \<open>2^32 - 1\<close>\<close>
  "is_array_index k =
     (k \<noteq> [] \<and> list_all is_digit k \<and> (k = ''0'' \<or> take 1 k \<noteq> ''0'')
      \<and> index_value k < 2 ^ 32 - 1)"

definition Object_values :: "'a js_object \<Rightarrow> 'a list" where
  \<comment> \<open>\<open>Object.values\<close>: the properties named by array indices first, in ascending order,
      then the others in the order of their creation\<close>
  "Object_values obj =
     map snd (sort_key (\<lambda>p. index_value (fst p)) (filter (\<lambda>p. is_array_index (fst p)) obj)
              @ filter (\<lambda>p. \<not> is_array_index (fst p)) obj)"

fun reduce :: "('b \<Rightarrow> 'a \<Rightarrow> js_error + 'b) \<Rightarrow> 'b \<Rightarrow> 'a list \<Rightarrow> js_error + 'b" where
  \<comment> \<open>\<open>Array.prototype.reduce\<close> with an initial value; an exception of the callback ends it\<close>
  "reduce f acc [] = Inr acc"
| "reduce f acc (x # xs) = (case f acc x of Inl err \<Rightarrow> Inl err | Inr acc' \<Rightarrow> reduce f acc' xs)"

definition group_key :: "fetched \<Rightarrow> string" where
  \<comment> \<open>the template literal of the reducer\<close>
  "group_key d = user_name d @ ''-'' @ assignment_title d @ ''-'' @ created_at d"

definition reducer :: "fetched list js_object \<Rightarrow> fetched \<Rightarrow> js_error + fetched list js_object" where
  \<comment> \<open>\<open>if (!acc[key]) acc[key] = []; acc[key].push(declaration)\<close>: an array is truthy; a
      member of \<open>Object.prototype\<close> is truthy and has no \<open>push\<close>\<close>
  "reducer acc d =
     (case get_property acc (group_key d) of
        Missing \<Rightarrow> Inr (set_property acc (group_key d) [d])
      | Own g \<Rightarrow> Inr (set_property acc (group_key d) (g @ [d]))
      | Inherited \<Rightarrow> Inl TypeError)"

definition groupedDeclarations :: "fetched list \<Rightarrow> js_error + fetched list js_object" where
  "groupedDeclarations ds = reduce reducer [] ds"

record card =
  heading :: string
  user_info :: string
  date_badge :: string
  tool_badges :: "string list"
  purpose :: string
  content_text :: string
  screenshot_image :: "string option"

definition render_card :: "(string \<Rightarrow> string) \<Rightarrow> fetched list \<Rightarrow> js_error + card" where
  \<comment> \<open>the body of \<open>Object.values(groupedDeclarations).map((group, index) => ...)\<close>;
      \<open>group[0]\<close> of an empty array is \<open>undefined\<close> and reading its fields throws\<close>
  "render_card formatDate g =
     (case g of
        [] \<Rightarrow> Inl TypeError
      | firstDeclaration # _ \<Rightarrow>
          Inr \<lparr>heading = assignment_title firstDeclaration,
               user_info = user_name firstDeclaration,
               date_badge = formatDate (created_at firstDeclaration),
               tool_badges = map ai_tool g,
               purpose = usage_purpose firstDeclaration,
               content_text = ai_content firstDeclaration,
               screenshot_image =
                 (if falsy (screenshot_path firstDeclaration) then None
                  else screenshot_path firstDeclaration)\<rparr>)"

fun map_results :: "('a \<Rightarrow> js_error + 'b) \<Rightarrow> 'a list \<Rightarrow> js_error + 'b list" where
  "map_results f [] = Inr []"
| "map_results f (x # xs) =
     (case f x of
        Inl err \<Rightarrow> Inl err
      | Inr y \<Rightarrow> (case map_results f xs of Inl err \<Rightarrow> Inl err | Inr ys \<Rightarrow> Inr (y # ys)))"

record home_state =
  declarations :: "fetched list"
  loading :: bool
  page_error :: string

definition declarations_list :: "(string \<Rightarrow> string) \<Rightarrow> home_state \<Rightarrow> js_error + card list" where
  \<comment> \<open>the cards of the page: \<open>groupedDeclarations\<close> is computed on every render, the list is
      shown when \<open>!loading && !error && declarations.length > 0\<close>; \<open>formatDate\<close> is the
      component's date formatter\<close>
  "declarations_list formatDate st =
     (case groupedDeclarations (declarations st) of
        Inl err \<Rightarrow> Inl err
      | Inr grouped \<Rightarrow>
          if \<not> loading st \<and> page_error st = [] \<and> declarations st \<noteq> []
          then map_results (render_card formatDate) (Object_values grouped)
          else Inr [])"

section \<open>Notions used in the statements\<close>

subsection \<open>The submission handler\<close>

text \<open>
  The checks of the POST handler, read off its two validation exits: every one of the five
  fields is truthy and the text of \<open>aiTools\<close> parses to an array that is not empty.
\<close>

definition tools_text :: "env \<Rightarrow> form_fields \<Rightarrow> string option" where
  \<comment> \<open>the text of \<open>aiTools\<close> that is parsed, if the field has one\<close>
  "tools_text e b =
     (case aiTools b of
        None \<Rightarrow> None
      | Some (JString s) \<Rightarrow> Some s
      | Some v \<Rightarrow> ToString e v)"

definition passes_validation :: "env \<Rightarrow> form_fields \<Rightarrow> bool" where
  "passes_validation e b =
     (\<not> falsy_value (userName b) \<and> \<not> falsy_value (assignmentTitle b) \<and> \<not> falsy_value (aiTools b)
      \<and> \<not> falsy_value (usagePurpose b) \<and> \<not> falsy_value (aiContent b)
      \<and> (case tools_text e b of
            None \<Rightarrow> False
          | Some s \<Rightarrow>
              (case JSON_parse s of
                 Some (JArray ts) \<Rightarrow> ts \<noteq> []
               | _ \<Rightarrow> False)))"

definition rejection_message :: "form_fields \<Rightarrow> string" where
  "rejection_message b =
     (if falsy_value (userName b) \<or> falsy_value (assignmentTitle b) \<or> falsy_value (aiTools b)
         \<or> falsy_value (usagePurpose b) \<or> falsy_value (aiContent b)
      then ''All fields except screenshot are required''
      else ''Invalid AI tools format'')"

definition tools_of :: "env \<Rightarrow> form_fields \<Rightarrow> json list" where
  \<comment> \<open>the parsed \<open>toolsArray\<close> of a form\<close>
  "tools_of e b =
     (case tools_text e b of
        None \<Rightarrow> []
      | Some s \<Rightarrow> (case JSON_parse s of Some (JArray ts) \<Rightarrow> ts | _ \<Rightarrow> []))"

definition inserts_of :: "env \<Rightarrow> request \<Rightarrow> insert_values list" where
  \<comment> \<open>the values of the INSERTs of a request, one per tool\<close>
  "inserts_of e req =
     map (\<lambda>tool. (bound (userName (body req)), bound (assignmentTitle (body req)), tool,
                   bound (usagePurpose (body req)), bound (aiContent (body req)),
                   map_option (\<lambda>f. ''/uploads/'' @ filename f) (req_file req)))
       (tools_of e (body req))"

definition stored_upload :: "request \<Rightarrow> world \<Rightarrow> bool" where
  \<comment> \<open>the file that multer reports in \<open>req.file\<close>, if any, is on the disk\<close>
  "stored_upload req w = (case req_file req of None \<Rightarrow> True | Some f \<Rightarrow> path f \<in> disk w)"

definition uploaded :: "request \<Rightarrow> string set" where
  "uploaded req = (case req_file req of None \<Rightarrow> {} | Some f \<Rightarrow> {path f})"

definition unlink_events :: "request \<Rightarrow> event list" where
  "unlink_events req = (case req_file req of None \<Rightarrow> [] | Some f \<Rightarrow> [Unlink (path f)])"

text \<open>The three bodies the POST handler sends.\<close>

definition created :: "nat \<Rightarrow> response" where
  "created k =
     \<lparr>status = 201, success = True,
      message = Some (''Successfully created '' @ show_nat k @ '' declaration(s)''),
      error = None, count_field = None, data = None\<rparr>"

definition bad_request :: "string \<Rightarrow> response" where
  "bad_request msg =
     \<lparr>status = 400, success = False, message = Some msg,
      error = None, count_field = None, data = None\<rparr>"

definition create_failed :: "string \<Rightarrow> response" where
  "create_failed msg =
     \<lparr>status = 500, success = False, message = Some ''Failed to create declaration'',
      error = Some msg, count_field = None, data = None\<rparr>"

subsection \<open>The store\<close>

definition values_of :: "row \<Rightarrow> insert_values" where
  \<comment> \<open>the six inserted columns of a row\<close>
  "values_of r =
     (user_name r, assignment_title r, ai_tool r, usage_purpose r, ai_content r, screenshot_path r)"

fun committed :: "(nat \<Rightarrow> outcome) \<Rightarrow> nat \<Rightarrow> insert_values list \<Rightarrow> row list" where
  \<comment> \<open>the rows of the inserts that the store accepts, the first insert being number \<open>i\<close>\<close>
  "committed oc i [] = []"
| "committed oc i (v # vs) =
     (case oc i of Committed n t \<Rightarrow> [stored n t v] | Rejected m \<Rightarrow> []) @ committed oc (Suc i) vs"

fun first_rejection :: "(nat \<Rightarrow> outcome) \<Rightarrow> nat \<Rightarrow> nat \<Rightarrow> string option" where
  \<comment> \<open>the message of the first rejected insert among \<open>k\<close> inserts from number \<open>i\<close> on\<close>
  "first_rejection oc i 0 = None"
| "first_rejection oc i (Suc k) =
     (case oc i of Rejected m \<Rightarrow> Some m | Committed n t \<Rightarrow> first_rejection oc (Suc i) k)"

definition all_committed :: "(nat \<Rightarrow> outcome) \<Rightarrow> nat \<Rightarrow> bool" where
  \<comment> \<open>the store accepts the inserts \<open>0 .. k - 1\<close>\<close>
  "all_committed oc k = (\<forall>i<k. \<exists>n t. oc i = Committed n t)"


subsection \<open>The words of the specification\<close>

text \<open>
  ``A non-empty list of strings'', ``non-empty after trimming'' (\<open>String.prototype.trim\<close> on
  ASCII white space) and the allow-list of image formats, as an extension and as a MIME
  type.
\<close>

definition is_string :: "json \<Rightarrow> bool" where
  "is_string j = (case j of JString s \<Rightarrow> True | _ \<Rightarrow> False)"

definition string_list :: "string \<Rightarrow> bool" where
  "string_list s =
     (case JSON_parse s of
        Some (JArray ts) \<Rightarrow> ts \<noteq> [] \<and> list_all is_string ts
      | _ \<Rightarrow> False)"



definition allowed_extension :: "string \<Rightarrow> bool" where
  "allowed_extension x = (x \<in> set [''.jpeg'', ''.jpg'', ''.png'', ''.gif'', ''.webp''])"

definition allowed_mimetype :: "string \<Rightarrow> bool" where
  "allowed_mimetype m =
     (m \<in> set [''image/jpeg'', ''image/jpg'', ''image/png'', ''image/gif'', ''image/webp''])"

subsection \<open>Grouping\<close>

fun first_seen :: "'a list \<Rightarrow> 'a list" where
  \<comment> \<open>the distinct elements of a list in the order of their first occurrence\<close>
  "first_seen [] = []"
| "first_seen (x # xs) = x # removeAll x (first_seen xs)"

definition groups_of :: "fetched list \<Rightarrow> fetched list js_object" where
  \<comment> \<open>one property per distinct key, holding the rows of that key in their order\<close>
  "groups_of ds =
     map (\<lambda>k. (k, filter (\<lambda>d. group_key d = k) ds)) (first_seen (map group_key ds))"

section \<open>Concrete inputs\<close>

text \<open>
  A production server whose store accepts every insert, one whose store rejects the second
  insert of a request, and one whose store rejects the SELECT. No request below sends an
  \<open>aiTools\<close> that is not a string, so the conversion of such a value is never asked for.
\<close>

definition demo_env :: env where
  "demo_env =
     \<lparr>NODE_ENV = Some ''production'',
      insert_outcome = (\<lambda>i. Committed (Suc i) 1700000000),
      select_outcome = None,
      uploadDir = ''/app/server/uploads'',
      uniqueSuffix = ''1700000000000-123456789'',
      ToString = (\<lambda>v. None)\<rparr>"

definition failing_env :: env where
  "failing_env =
     demo_env\<lparr>insert_outcome :=
       (\<lambda>i. if i = 1 then Rejected ''Lost connection to MySQL server during query''
            else Committed (Suc i) 1700000000)\<rparr>"

definition outage_env :: env where
  "outage_env = demo_env\<lparr>select_outcome := Some ''connect ECONNREFUSED 127.0.0.1:3306''\<rparr>"

text \<open>
  The form of the specification's scenario, and variants of it: a tool list that is not a
  list of strings, an empty tool list, a name and a title made of blanks, and a name and a
  title that arrive as the array \<open>['']\<close> (form fields \<open>userName[]\<close> and \<open>assignmentTitle[]\<close>
  with an empty value).
\<close>

definition alice :: form_fields where
  \<open>alice =
     \<lparr>userName = Some (JString ''Alice''), assignmentTitle = Some (JString ''Essay 1''),
      aiTools = Some (JString ''["ChatGPT","Grammarly"]''),
      usagePurpose = Some (JString ''brainstorming''), aiContent = Some (JString ''outline'')\<rparr>\<close>

definition number_tools :: form_fields where
  "number_tools = alice\<lparr>aiTools := Some (JString ''[1]'')\<rparr>"

definition no_tools :: form_fields where
  "no_tools = alice\<lparr>aiTools := Some (JString ''[]'')\<rparr>"



text \<open>
  An image upload and the file multer stores for it, an upload that is not an image, an
  empty system, a system holding the stored image, and a table of three rows.
\<close>

definition shot :: upload where
  "shot = \<lparr>originalname = ''shot.png'', mimetype = ''image/png'', fsize = 2048\<rparr>"

definition shot_file :: multer_file where
  "shot_file =
     \<lparr>path = ''/app/server/uploads/screenshot-1700000000000-123456789.png'',
      filename = ''screenshot-1700000000000-123456789.png''\<rparr>"

definition odd_upload :: upload where
  "odd_upload = \<lparr>originalname = ''notes.pngx'', mimetype = ''application/x-pngx'', fsize = 10\<rparr>"

definition empty_world :: world where
  "empty_world = \<lparr>db = [], disk = {}, trace = []\<rparr>"

definition shot_world :: world where
  "shot_world = \<lparr>db = [], disk = {path shot_file}, trace = []\<rparr>"

definition sample :: "nat \<Rightarrow> nat \<Rightarrow> row" where
  "sample i t =
     stored i t (JString ''Alice'', JString ''Essay 1'', JString ''ChatGPT'',
                 JString ''brainstorming'', JString ''outline'', None)"

definition three_rows :: world where
  "three_rows = \<lparr>db = [sample 1 5, sample 2 9, sample 3 5], disk = {}, trace = []\<rparr>"

text \<open>
  Fetched rows: two whose keys collide, and a page of three rows in which the two rows of
  Alice surround the row of Bob and differ in purpose, content and screenshot.
\<close>

definition ann_marie :: fetched where
  "ann_marie =
     \<lparr>decl_id = 1, user_name = ''Ann-Marie'', assignment_title = ''Lab'', ai_tool = ''ChatGPT'',
      usage_purpose = ''debugging'', ai_content = ''a fix'', screenshot_path = None,
      created_at = ''2024-05-01T10:00:00.000Z''\<rparr>"

definition ann :: fetched where
  "ann =
     \<lparr>decl_id = 2, user_name = ''Ann'', assignment_title = ''Marie-Lab'', ai_tool = ''Claude'',
      usage_purpose = ''summary'', ai_content = ''an abstract'', screenshot_path = None,
      created_at = ''2024-05-01T10:00:00.000Z''\<rparr>"

definition alice_chatgpt :: fetched where
  "alice_chatgpt =
     \<lparr>decl_id = 7, user_name = ''Alice'', assignment_title = ''Essay 1'', ai_tool = ''ChatGPT'',
      usage_purpose = ''brainstorming'', ai_content = ''outline'',
      screenshot_path = Some ''/uploads/screenshot-1.png'',
      created_at = ''2024-05-02T09:30:00.000Z''\<rparr>"

definition alice_grammarly :: fetched where
  "alice_grammarly =
     \<lparr>decl_id = 9, user_name = ''Alice'', assignment_title = ''Essay 1'', ai_tool = ''Grammarly'',
      usage_purpose = ''proofreading'', ai_content = ''corrections'', screenshot_path = None,
      created_at = ''2024-05-02T09:30:00.000Z''\<rparr>"

definition bob :: fetched where
  "bob =
     \<lparr>decl_id = 8, user_name = ''Bob'', assignment_title = ''Essay 1'', ai_tool = ''Claude'',
      usage_purpose = ''summary'', ai_content = ''abstract'', screenshot_path = Some [],
      created_at = ''2024-05-02T09:30:00.000Z''\<rparr>"

definition day_of :: "string \<Rightarrow> string" where
  \<comment> \<open>a date formatter for the instances\<close>
  "day_of s = take 10 s"

definition home :: home_state where
  "home = \<lparr>declarations = [alice_chatgpt, bob, alice_grammarly], loading = False, page_error = []\<rparr>"

section \<open>Lemmas\<close>

declare show_nat.simps [simp del]

subsection \<open>Traces\<close>

lemma responses_append: "responses (xs @ ys) = responses xs @ responses ys"
  by (induction xs rule: responses.induct) simp_all

lemma queries_append: "queries (xs @ ys) = queries xs @ queries ys"
  by (induction xs rule: queries.induct) simp_all

lemma responses_Query: "responses (map Query vs) = []"
  by (induction vs) simp_all

lemma queries_Query: "queries (map Query vs) = vs"
  by (induction vs) simp_all

lemma responses_map_Query: "responses (map (Query \<circ> f) xs) = []"
  by (induction xs) simp_all

lemma queries_unlink_events [simp]: "queries (unlink_events req) = []"
  by (simp add: unlink_events_def split: option.splits)

lemma responses_unlink_events [simp]: "responses (unlink_events req) = []"
  by (simp add: unlink_events_def split: option.splits)

subsection \<open>The inserts of one request\<close>

lemma values_of_stored: "values_of (stored n t v) = v"
  by (cases v) (simp add: values_of_def stored_def)

lemma Promise_all_inserts_eq:
  "Promise_all_inserts oc i vs w =
     (w\<lparr>db := db w @ committed oc i vs, trace := trace w @ map Query vs\<rparr>,
      first_rejection oc i (length vs))"
proof (induction vs arbitrary: i w)
  case Nil
  show ?case by simp
next
  case (Cons v vs)
  show ?case
    by (cases "oc i") (simp_all add: Cons.IH pool_insert_def emit_def)
qed

lemma first_rejection_None:
  "first_rejection oc i k = None \<longleftrightarrow> (\<forall>j<k. \<exists>n t. oc (i + j) = Committed n t)"
proof (induction k arbitrary: i)
  case 0
  show ?case by simp
next
  case (Suc k)
  show ?case
  proof (cases "oc i")
    case (Committed n t)
    have "(\<forall>j<Suc k. \<exists>n t. oc (i + j) = Committed n t) \<longleftrightarrow>
          (\<forall>j<k. \<exists>n t. oc (Suc i + j) = Committed n t)"
      using Committed by (auto simp: less_Suc_eq_0_disj)
    with Committed Suc.IH [of "Suc i"] show ?thesis by simp
  next
    case (Rejected m)
    then have "\<not> (\<forall>j<Suc k. \<exists>n t. oc (i + j) = Committed n t)"
      by (auto intro!: exI [of _ 0])
    with Rejected show ?thesis by simp
  qed
qed

lemma committed_values:
  "\<forall>j<length vs. \<exists>n t. oc (i + j) = Committed n t \<Longrightarrow> map values_of (committed oc i vs) = vs"
proof (induction vs arbitrary: i)
  case Nil
  show ?case by simp
next
  case (Cons v vs)
  from Cons.prems obtain n t where o: "oc i = Committed n t"
    by (auto dest: spec [of _ 0])
  from Cons.prems have "\<forall>j<length vs. \<exists>n t. oc (Suc i + j) = Committed n t"
    by (auto dest: spec [of _ "Suc _"])
  then have "map values_of (committed oc (Suc i) vs) = vs" by (rule Cons.IH)
  with o show ?case by (simp add: values_of_stored)
qed


subsection \<open>The POST handler, branch by branch\<close>

lemma JSON_parse_empty: "JSON_parse [] = None"
  by (simp add: JSON_parse_def)

lemma argument_text_bound:
  "\<not> falsy_value (aiTools b) \<Longrightarrow> argument_text e (bound (aiTools b)) = tools_text e b"
  by (auto simp: falsy_value_def bound_def argument_text_def tools_text_def
      split: option.splits json.splits)

lemma post_handler_eq:
  "post_handler e req w =
     (if \<not> passes_validation e (body req) then reject req (rejection_message (body req)) w
      else
        (case first_rejection (insert_outcome e) 0 (length (inserts_of e req)) of
           Some msg \<Rightarrow>
             catch_block req msg
               (w\<lparr>db := db w @ committed (insert_outcome e) 0 (inserts_of e req),
                  trace := trace w @ map Query (inserts_of e req)\<rparr>)
         | None \<Rightarrow>
             res_json (created (length (tools_of e (body req))))
               (w\<lparr>db := db w @ committed (insert_outcome e) 0 (inserts_of e req),
                  trace := trace w @ map Query (inserts_of e req)\<rparr>)))"
proof (cases "falsy_value (userName (body req)) \<or> falsy_value (assignmentTitle (body req))
         \<or> falsy_value (aiTools (body req))
         \<or> falsy_value (usagePurpose (body req)) \<or> falsy_value (aiContent (body req))")
  case True
  then show ?thesis
    by (auto simp: post_handler_def Let_def passes_validation_def rejection_message_def)
next
  case False
  then have tt: "argument_text e (bound (aiTools (body req))) = tools_text e (body req)"
    by (simp add: argument_text_bound)
  show ?thesis
  proof (cases "parse_tools e (bound (aiTools (body req)))")
    case None
    then have "\<not> passes_validation e (body req)"
      by (auto simp: passes_validation_def parse_tools_def tt
          split: option.splits json.splits if_splits)
    with False None show ?thesis
      by (simp add: post_handler_def Let_def rejection_message_def)
  next
    case (Some ts)
    then obtain s where s: "tools_text e (body req) = Some s"
      and p: "JSON_parse s = Some (JArray ts)" and ne: "ts \<noteq> []"
      by (auto simp: parse_tools_def tt split: option.splits json.splits if_splits)
    from False s p ne have v: "passes_validation e (body req)"
      by (simp add: passes_validation_def)
    from s p have t: "tools_of e (body req) = ts" by (simp add: tools_of_def)
    have "post_handler e req w =
        (case Promise_all_inserts (insert_outcome e) 0 (inserts_of e req) w of
           (w1, Some msg) \<Rightarrow> catch_block req msg w1
         | (w1, None) \<Rightarrow> res_json (created (length (tools_of e (body req)))) w1)"
      using False Some
      by (simp add: post_handler_def Let_def inserts_of_def t created_def)
    also have "\<dots> =
        (case first_rejection (insert_outcome e) 0 (length (inserts_of e req)) of
           Some msg \<Rightarrow>
             catch_block req msg
               (w\<lparr>db := db w @ committed (insert_outcome e) 0 (inserts_of e req),
                  trace := trace w @ map Query (inserts_of e req)\<rparr>)
         | None \<Rightarrow>
             res_json (created (length (tools_of e (body req))))
               (w\<lparr>db := db w @ committed (insert_outcome e) 0 (inserts_of e req),
                  trace := trace w @ map Query (inserts_of e req)\<rparr>))"
      by (simp only: Promise_all_inserts_eq prod.case split: option.splits)
    finally show ?thesis
      using v by simp
  qed
qed

lemma cleanup_stored:
  "stored_upload req w \<Longrightarrow>
   cleanup req w = Inr (w\<lparr>disk := disk w - uploaded req, trace := trace w @ unlink_events req\<rparr>)"
  by (auto simp: cleanup_def stored_upload_def unlinkSync_def emit_def uploaded_def unlink_events_def
      split: option.splits)

lemma reject_stored:
  "stored_upload req w \<Longrightarrow>
   reject req msg w =
     w\<lparr>disk := disk w - uploaded req,
       trace := trace w @ unlink_events req @ [Respond (bad_request msg)]\<rparr>"
  by (simp add: reject_def cleanup_stored res_json_def emit_def bad_request_def)

lemma catch_block_stored:
  "stored_upload req w \<Longrightarrow>
   catch_block req msg w =
     w\<lparr>disk := disk w - uploaded req,
       trace := trace w @ [ConsoleError msg] @ unlink_events req @ [Respond (create_failed msg)]\<rparr>"
proof -
  assume s: "stored_upload req w"
  then have "stored_upload req (emit (ConsoleError msg) w)"
    by (simp add: stored_upload_def emit_def split: option.splits)
  then show ?thesis
    by (simp add: catch_block_def Let_def cleanup_stored res_json_def emit_def create_failed_def)
qed

lemma post_handler_stored:
  assumes "stored_upload req w"
  shows "post_handler e req w =
     (if \<not> passes_validation e (body req) then
        w\<lparr>disk := disk w - uploaded req,
          trace := trace w @ unlink_events req
                   @ [Respond (bad_request (rejection_message (body req)))]\<rparr>
      else
        (case first_rejection (insert_outcome e) 0 (length (inserts_of e req)) of
           Some msg \<Rightarrow>
             w\<lparr>db := db w @ committed (insert_outcome e) 0 (inserts_of e req),
               disk := disk w - uploaded req,
               trace := trace w @ map Query (inserts_of e req) @ [ConsoleError msg]
                        @ unlink_events req @ [Respond (create_failed msg)]\<rparr>
         | None \<Rightarrow>
             w\<lparr>db := db w @ committed (insert_outcome e) 0 (inserts_of e req),
               trace := trace w @ map Query (inserts_of e req)
                        @ [Respond (created (length (tools_of e (body req))))]\<rparr>))"
proof -
  let ?w1 = "w\<lparr>db := db w @ committed (insert_outcome e) 0 (inserts_of e req),
                trace := trace w @ map Query (inserts_of e req)\<rparr>"
  from assms have "stored_upload req ?w1" by (simp add: stored_upload_def split: option.splits)
  then have c: "catch_block req msg ?w1 =
     ?w1\<lparr>disk := disk ?w1 - uploaded req,
       trace := trace ?w1 @ [ConsoleError msg] @ unlink_events req @ [Respond (create_failed msg)]\<rparr>"
    for msg by (rule catch_block_stored)
  show ?thesis
    by (simp add: post_handler_eq reject_stored [OF assms] c res_json_def emit_def
        split: option.splits)
qed

lemma tools_of_nonempty: "passes_validation e b \<Longrightarrow> tools_of e b \<noteq> []"
  by (auto simp: passes_validation_def tools_of_def split: option.splits json.splits)

lemma valid_form:
  assumes b: "b = \<lparr>userName = Some u, assignmentTitle = Some a, aiTools = Some (JString tools),
                    usagePurpose = Some p, aiContent = Some c\<rparr>"
    and ne: "truthy u" "truthy a" "truthy p" "truthy c"
    and parse: "JSON_parse tools = Some (JArray ts)" "ts \<noteq> []"
  shows "passes_validation e b" and "tools_of e b = ts"
proof -
  from parse have "tools \<noteq> []" by (auto simp: JSON_parse_empty)
  with b ne parse show "passes_validation e b" and "tools_of e b = ts"
    by (simp_all add: passes_validation_def tools_of_def falsy_value_def tools_text_def)
qed


lemma queries_post_handler:
  "queries (trace (post_handler e req w)) =
     queries (trace w) @ (if passes_validation e (body req) then inserts_of e req else [])"
  by (simp add: post_handler_eq reject_def catch_block_def cleanup_def unlinkSync_def res_json_def
      emit_def Let_def queries_append queries_Query split: option.splits sum.splits)

lemma success_keeps_file:
  assumes "passes_validation e (body req)"
    and "first_rejection (insert_outcome e) 0 (length (inserts_of e req)) = None"
  shows "disk (post_handler e req w) = disk w"
  using assms by (simp add: post_handler_eq res_json_def emit_def)



subsection \<open>The upload filter and the query\<close>

lemma upload_single_accepts_iff:
  "(\<exists>r. upload_single e (Some f) w = Inr r) \<longleftrightarrow>
     allowedTypes_test (toLowerCase (extname (originalname f)))
     \<and> allowedTypes_test (mimetype f)
     \<and> fsize f \<le> 5 * 1024 * 1024"
  by (auto simp: upload_single_def fileFilter_def fileSize_limit_def Let_def split: sum.splits)

lemma allow_list_accepted:
  assumes "allowed_extension (toLowerCase (extname (originalname f)))"
    and "allowed_mimetype (mimetype f)"
  shows "fileFilter f = Inr True"
proof -
  from assms(1) have "allowedTypes_test (toLowerCase (extname (originalname f)))"
    by (auto simp: allowed_extension_def allowedTypes_test_def allowedTypes_def starts_with_def)
  moreover from assms(2) have "allowedTypes_test (mimetype f)"
    by (auto simp: allowed_mimetype_def allowedTypes_test_def allowedTypes_def starts_with_def)
  ultimately show ?thesis by (simp add: fileFilter_def)
qed

lemma upload_refused_no_rows:
  assumes "upload_single e (Some f) w = Inl err"
  shows "db (POST_declarations e \<lparr>text_fields = b, screenshot = Some f\<rparr> w) = db w
       \<and> disk (POST_declarations e \<lparr>text_fields = b, screenshot = Some f\<rparr> w) = disk w
       \<and> queries (trace (POST_declarations e \<lparr>text_fields = b, screenshot = Some f\<rparr> w)) =
           queries (trace w)
       \<and> responses (trace (POST_declarations e \<lparr>text_fields = b, screenshot = Some f\<rparr> w)) =
           responses (trace w) @
             [\<lparr>status = 500, success = False, message = Some ''Internal server error'',
               error = (if NODE_ENV e = Some ''development'' then Some err else None),
               count_field = None, data = None\<rparr>]"
  using assms
  by (simp add: POST_declarations_def error_middleware_def res_json_def emit_def
      responses_append queries_append)

lemma sorted_desc_select_all:
  "sorted_wrt (\<lambda>r s. created_at s \<le> created_at r) (select_all rows)"
proof -
  have "sorted (map created_at (sort_key created_at (rev rows)))" by (rule sorted_sort_key)
  then have "sorted_wrt (\<lambda>r s. created_at r \<le> created_at s) (sort_key created_at (rev rows))"
    by (simp add: sorted_map)
  then show ?thesis
    by (simp add: select_all_def sorted_wrt_rev)
qed

lemma mset_select_all: "mset (select_all rows) = mset rows"
  by (simp add: select_all_def)

subsection \<open>Grouping and rendering\<close>

lemma set_first_seen [simp]: "set (first_seen xs) = set xs"
  by (induction xs) auto

lemma distinct_first_seen [simp]: "distinct (first_seen xs)"
  by (induction xs) (auto simp: distinct_removeAll)

lemma first_seen_snoc:
  "first_seen (xs @ [x]) = (if x \<in> set xs then first_seen xs else first_seen xs @ [x])"
  by (induction xs) auto

lemma reduce_snoc:
  "reduce f acc (xs @ [x]) = (case reduce f acc xs of Inl err \<Rightarrow> Inl err | Inr a \<Rightarrow> f a x)"
  by (induction xs arbitrary: acc) (auto split: sum.splits)

lemma map_of_tabulate:
  "map_of (map (\<lambda>k. (k, f k)) ks) k = (if k \<in> set ks then Some (f k) else None)"
  by (induction ks) auto

lemma set_property_absent:
  "k \<notin> set ks \<Longrightarrow> set_property (map (\<lambda>k. (k, f k)) ks) k v = map (\<lambda>k. (k, f k)) ks @ [(k, v)]"
  by (induction ks) auto

lemma set_property_present:
  "k \<in> set ks \<Longrightarrow> distinct ks \<Longrightarrow>
   set_property (map (\<lambda>k. (k, f k)) ks) k v = map (\<lambda>k'. (k', if k' = k then v else f k')) ks"
  by (induction ks) auto

lemma dash_in_group_key: "CHR ''-'' \<in> set (group_key d)"
  by (simp add: group_key_def)

lemma group_key_not_inherited: "group_key d \<notin> set Object_prototype"
proof
  assume "group_key d \<in> set Object_prototype"
  moreover have "\<forall>n \<in> set Object_prototype. CHR ''-'' \<notin> set n"
    by (simp add: Object_prototype_def)
  ultimately show False using dash_in_group_key [of d] by blast
qed

lemma group_key_not_index: "\<not> is_array_index (group_key d)"
proof
  assume "is_array_index (group_key d)"
  then have "\<forall>c \<in> set (group_key d). is_digit c"
    by (simp add: is_array_index_def list_all_iff)
  with dash_in_group_key [of d] have "is_digit (CHR ''-'')" by blast
  then show False by (simp add: is_digit_def)
qed

lemma Object_values_no_index:
  assumes "\<forall>p \<in> set obj. \<not> is_array_index (fst p)"
  shows "Object_values obj = map snd obj"
proof -
  from assms have "filter (\<lambda>p. is_array_index (fst p)) obj = []"
    and "filter (\<lambda>p. \<not> is_array_index (fst p)) obj = obj"
    by (simp_all add: filter_empty_conv)
  then show ?thesis by (simp add: Object_values_def)
qed

lemma reducer_groups_of: "reducer (groups_of ds) d = Inr (groups_of (ds @ [d]))"
proof (cases "group_key d \<in> set (map group_key ds)")
  case False
  then have ne: "\<forall>x \<in> set ds. group_key x \<noteq> group_key d"
    by (metis image_eqI set_map)
  then have empty: "filter (\<lambda>x. group_key x = group_key d) ds = []"
    by (simp add: filter_empty_conv)
  have "map (\<lambda>k. (k, filter (\<lambda>x. group_key x = k) (ds @ [d]))) (first_seen (map group_key ds)) =
        map (\<lambda>k. (k, filter (\<lambda>x. group_key x = k) ds)) (first_seen (map group_key ds))"
    using False by (intro map_cong) auto
  with False empty have a: "groups_of (ds @ [d]) = groups_of ds @ [(group_key d, [d])]"
    by (simp add: groups_of_def first_seen_snoc)
  have "group_key d \<notin> set (first_seen (map group_key ds))"
    using False by simp
  then have "reducer (groups_of ds) d = Inr (groups_of ds @ [(group_key d, [d])])"
    using group_key_not_inherited [of d]
    by (simp add: reducer_def get_property_def groups_of_def map_of_tabulate set_property_absent)
  with a show ?thesis by simp
next
  case True
  have "map (\<lambda>k. (k, filter (\<lambda>x. group_key x = k) (ds @ [d]))) (first_seen (map group_key ds)) =
        map (\<lambda>k. (k, if k = group_key d then filter (\<lambda>x. group_key x = group_key d) ds @ [d]
                       else filter (\<lambda>x. group_key x = k) ds))
          (first_seen (map group_key ds))"
    by (intro map_cong) auto
  with True have a: "groups_of (ds @ [d]) =
        map (\<lambda>k. (k, if k = group_key d then filter (\<lambda>x. group_key x = group_key d) ds @ [d]
                       else filter (\<lambda>x. group_key x = k) ds))
          (first_seen (map group_key ds))"
    by (simp add: groups_of_def first_seen_snoc)
  have "group_key d \<in> set (first_seen (map group_key ds))"
    using True by simp
  then have "reducer (groups_of ds) d =
      Inr (map (\<lambda>k. (k, if k = group_key d then filter (\<lambda>x. group_key x = group_key d) ds @ [d]
                       else filter (\<lambda>x. group_key x = k) ds))
          (first_seen (map group_key ds)))"
    by (simp add: reducer_def get_property_def groups_of_def map_of_tabulate set_property_present)
  with a show ?thesis by simp
qed

lemma groupedDeclarations_eq: "groupedDeclarations ds = Inr (groups_of ds)"
proof (induction ds rule: rev_induct)
  case Nil
  show ?case by (simp add: groupedDeclarations_def groups_of_def)
next
  case (snoc d ds)
  then show ?case
    by (simp add: groupedDeclarations_def reduce_snoc reducer_groups_of)
qed

lemma Object_values_groups_of:
  "Object_values (groups_of ds) =
     map (\<lambda>k. filter (\<lambda>d. group_key d = k) ds) (first_seen (map group_key ds))"
proof -
  have "\<forall>p \<in> set (groups_of ds). \<not> is_array_index (fst p)"
    by (auto simp: groups_of_def group_key_not_index)
  then have "Object_values (groups_of ds) = map snd (groups_of ds)"
    by (rule Object_values_no_index)
  then show ?thesis by (simp add: groups_of_def comp_def)
qed

lemma mset_concat_classes:
  "distinct ks \<Longrightarrow> set (map f xs) \<subseteq> set ks \<Longrightarrow>
   mset (concat (map (\<lambda>k. filter (\<lambda>x. f x = k) xs) ks)) = mset xs"
proof (induction xs)
  case Nil
  show ?case by (induction ks) simp_all
next
  case (Cons x xs)
  have step: "distinct ks \<Longrightarrow>
      mset (concat (map (\<lambda>k. filter (\<lambda>x. f x = k) (x # xs)) ks)) =
      mset (concat (map (\<lambda>k. filter (\<lambda>x. f x = k) xs) ks)) + (if f x \<in> set ks then {#x#} else {#})"
    for ks
    by (induction ks) auto
  from Cons.prems have in_ks: "f x \<in> set ks" and rest: "set (map f xs) \<subseteq> set ks"
    by auto
  have "mset (concat (map (\<lambda>k. filter (\<lambda>x. f x = k) (x # xs)) ks)) =
        mset (concat (map (\<lambda>k. filter (\<lambda>x. f x = k) xs) ks)) + {#x#}"
    using step [OF Cons.prems(1)] in_ks by (simp only: if_True)
  also have "mset (concat (map (\<lambda>k. filter (\<lambda>x. f x = k) xs) ks)) = mset xs"
    using Cons.prems(1) rest by (rule Cons.IH)
  finally show ?case by simp
qed

lemma filter_Cons_find: "filter P xs = y # ys \<Longrightarrow> find P xs = Some y"
  by (induction xs) (auto split: if_splits)

lemma map_results_all:
  assumes "\<forall>x \<in> set xs. \<exists>y. f x = Inr y"
  shows "\<exists>ys. map_results f xs = Inr ys \<and> length ys = length xs
              \<and> (\<forall>i < length xs. f (xs ! i) = Inr (ys ! i))"
  using assms
proof (induction xs)
  case Nil
  show ?case by simp
next
  case (Cons x xs)
  then obtain y where y: "f x = Inr y" by auto
  from Cons obtain ys where ys: "map_results f xs = Inr ys" "length ys = length xs"
    "\<forall>i < length xs. f (xs ! i) = Inr (ys ! i)"
    by auto
  have "\<forall>i < length (x # xs). f ((x # xs) ! i) = Inr ((y # ys) ! i)"
    using y ys(3) by (auto simp: nth_Cons split: nat.splits)
  with y ys(1,2) show ?case by simp
qed

lemma render_card_Cons:
  "render_card formatDate (f # r) =
     Inr \<lparr>heading = assignment_title f, user_info = user_name f,
          date_badge = formatDate (created_at f), tool_badges = map ai_tool (f # r),
          purpose = usage_purpose f, content_text = ai_content f,
          screenshot_image = (if falsy (screenshot_path f) then None else screenshot_path f)\<rparr>"
  by (simp add: render_card_def)

lemma render_card_later_rows:
  "map ai_tool r = map ai_tool r' \<Longrightarrow>
   render_card formatDate (f # r) = render_card formatDate (f # r')"
  by (simp add: render_card_def)

lemma key_class_nonempty:
  assumes "g \<in> set (map (\<lambda>k. filter (\<lambda>d. group_key d = k) ds) (first_seen (map group_key ds)))"
  shows "\<exists>f r. g = f # r \<and> find (\<lambda>d. group_key d = group_key f) ds = Some f"
proof -
  from assms obtain k where k: "k \<in> set (map group_key ds)"
    and g: "g = filter (\<lambda>d. group_key d = k) ds"
    by auto
  from k obtain x where "x \<in> set ds" "group_key x = k" by auto
  then have "g \<noteq> []" by (auto simp: g filter_empty_conv)
  then obtain f r where fr: "g = f # r" by (cases g) auto
  then have "f \<in> set (filter (\<lambda>d. group_key d = k) ds)" by (simp add: g [symmetric])
  then have "group_key f = k" by simp
  with fr g have "filter (\<lambda>d. group_key d = group_key f) ds = f # r" by simp
  then have "find (\<lambda>d. group_key d = group_key f) ds = Some f" by (rule filter_Cons_find)
  with fr show ?thesis by blast
qed

subsection \<open>The concrete inputs\<close>

lemma parse_two: \<open>JSON_parse ''["ChatGPT","Grammarly"]'' =
    Some (JArray [JString ''ChatGPT'', JString ''Grammarly''])\<close>
  by code_simp

lemma parse_number: "JSON_parse ''[1]'' = Some (JArray [JNumber ''1''])"
  by code_simp

lemma parse_no_tools: "JSON_parse ''[]'' = Some (JArray [])"
  by code_simp

lemma show_nat_small: "show_nat (Suc 0) = ''1''" "show_nat (Suc (Suc 0)) = ''2''"
  by code_simp+

lemma passes_alice: "passes_validation e alice"
  by (simp add: passes_validation_def alice_def falsy_value_def tools_text_def parse_two)

lemma tools_alice: "tools_of e alice = [JString ''ChatGPT'', JString ''Grammarly'']"
  by (simp add: tools_of_def alice_def tools_text_def parse_two)

lemma passes_number_tools: "passes_validation e number_tools"
  by (simp add: passes_validation_def number_tools_def alice_def falsy_value_def tools_text_def
      parse_number)

lemma tools_number_tools: "tools_of e number_tools = [JNumber ''1'']"
  by (simp add: tools_of_def number_tools_def alice_def tools_text_def parse_number)

lemma fails_no_tools: "\<not> passes_validation e no_tools"
  by (simp add: passes_validation_def no_tools_def alice_def falsy_value_def tools_text_def
      parse_no_tools)





lemma stored_no_file: "stored_upload \<lparr>body = b, req_file = None\<rparr> w"
  by (simp add: stored_upload_def)

lemma upload_shot:
  "upload_single demo_env (Some shot) empty_world = Inr (Some shot_file, shot_world)"
  "upload_single failing_env (Some shot) empty_world = Inr (Some shot_file, shot_world)"
  by (simp_all add: upload_single_def shot_def fileFilter_def extname_def last_segment_def
      toLowerCase_def to_lower_def allowedTypes_test_def allowedTypes_def starts_with_def
      fileSize_limit_def Let_def demo_env_def failing_env_def empty_world_def shot_world_def
      shot_file_def)

lemma stored_shot: "stored_upload \<lparr>body = b, req_file = Some shot_file\<rparr> shot_world"
  by (simp add: stored_upload_def shot_world_def)

lemma inserts_alice_shot:
  "inserts_of e \<lparr>body = alice, req_file = Some shot_file\<rparr> =
     [(JString ''Alice'', JString ''Essay 1'', JString ''ChatGPT'',
       JString ''brainstorming'', JString ''outline'',
       Some ''/uploads/screenshot-1700000000000-123456789.png''),
      (JString ''Alice'', JString ''Essay 1'', JString ''Grammarly'',
       JString ''brainstorming'', JString ''outline'',
       Some ''/uploads/screenshot-1700000000000-123456789.png'')]"
  by (simp add: inserts_of_def tools_alice) (simp add: alice_def bound_def shot_file_def)

lemma failing_first_rejection:
  "first_rejection (insert_outcome failing_env) 0 (Suc (Suc 0)) =
     Some ''Lost connection to MySQL server during query''"
  by (simp add: failing_env_def demo_env_def)

lemma odd_extension: "toLowerCase (extname ''notes.pngx'') = ''.pngx''"
  by (simp add: extname_def last_segment_def toLowerCase_def to_lower_def Let_def)

lemma odd_filter: "fileFilter odd_upload = Inr True"
  by (simp add: fileFilter_def odd_upload_def odd_extension allowedTypes_test_def allowedTypes_def
      starts_with_def Let_def)

section \<open>The claims\<close>

text \<open>
  C1. For a submission whose fields are present and truthy (for a text: not empty) and
  whose \<open>aiTools\<close> is a text that
  parses to a non-empty array \<open>ts\<close> of \<open>k\<close> elements, the POST handler issues exactly \<open>k\<close>
  INSERTs, one per element of \<open>ts\<close> in order (duplicates included), all with the submitted
  \<open>user_name\<close>, \<open>assignment_title\<close>, \<open>usage_purpose\<close>, \<open>ai_content\<close> and the same
  \<open>screenshot_path\<close>. When the store accepts them, exactly these \<open>k\<close> rows are appended to
  the table and the one response is 201 with \<open>success: true\<close> and the message
  \<open>Successfully created k declaration(s)\<close>.
\<close>

theorem C1_one_row_per_tool:
  assumes b: "body req = \<lparr>userName = Some u, assignmentTitle = Some a,
                           aiTools = Some (JString tools),
                           usagePurpose = Some p, aiContent = Some c\<rparr>"
    and ne: "truthy u" "truthy a" "truthy p" "truthy c"
    and parse: "JSON_parse tools = Some (JArray ts)" "ts \<noteq> []"
  shows "queries (trace (post_handler e req w)) =
           queries (trace w) @
             map (\<lambda>tool. (u, a, tool, p, c, map_option (\<lambda>f. ''/uploads/'' @ filename f) (req_file req))) ts
       \<and> (all_committed (insert_outcome e) (length ts) \<longrightarrow>
           (\<exists>rows.
               db (post_handler e req w) = db w @ rows
             \<and> length rows = length ts
             \<and> map ai_tool rows = ts
             \<and> map user_name rows = replicate (length ts) u
             \<and> map assignment_title rows = replicate (length ts) a
             \<and> map usage_purpose rows = replicate (length ts) p
             \<and> map ai_content rows = replicate (length ts) c
             \<and> map screenshot_path rows =
                 replicate (length ts) (map_option (\<lambda>f. ''/uploads/'' @ filename f) (req_file req))
             \<and> responses (trace (post_handler e req w)) =
                 responses (trace w) @
                   [\<lparr>status = 201, success = True,
                     message = Some (''Successfully created '' @ show_nat (length ts)
                                     @ '' declaration(s)''),
                     error = None, count_field = None, data = None\<rparr>]))"
proof -
  let ?sp = "map_option (\<lambda>f. ''/uploads/'' @ filename f) (req_file req)"
  let ?vs = "map (\<lambda>tool. (u, a, tool, p, c, ?sp)) ts"
  let ?rows = "committed (insert_outcome e) 0 ?vs"
  have v: "passes_validation e (body req)" and t: "tools_of e (body req) = ts"
    using valid_form [OF b ne parse] by simp_all
  have i: "inserts_of e req = ?vs"
    by (simp add: inserts_of_def t) (simp add: b bound_def)
  have q: "queries (trace (post_handler e req w)) = queries (trace w) @ ?vs"
    by (simp only: queries_post_handler v i if_True)
  have r: "\<exists>rows.
               db (post_handler e req w) = db w @ rows
             \<and> length rows = length ts
             \<and> map ai_tool rows = ts
             \<and> map user_name rows = replicate (length ts) u
             \<and> map assignment_title rows = replicate (length ts) a
             \<and> map usage_purpose rows = replicate (length ts) p
             \<and> map ai_content rows = replicate (length ts) c
             \<and> map screenshot_path rows = replicate (length ts) ?sp
             \<and> responses (trace (post_handler e req w)) =
                 responses (trace w) @
                   [\<lparr>status = 201, success = True,
                     message = Some (''Successfully created '' @ show_nat (length ts)
                                     @ '' declaration(s)''),
                     error = None, count_field = None, data = None\<rparr>]"
    if ok: "all_committed (insert_outcome e) (length ts)"
  proof -
    from ok have all: "\<forall>j<length ?vs. \<exists>n t. insert_outcome e (0 + j) = Committed n t"
      by (simp add: all_committed_def)
    then have none: "first_rejection (insert_outcome e) 0 (length ?vs) = None"
      by (simp only: first_rejection_None)
    have vals: "map values_of ?rows = ?vs"
      using all by (rule committed_values)
    have h: "post_handler e req w =
        res_json (created (length ts))
          (w\<lparr>db := db w @ ?rows, trace := trace w @ map Query ?vs\<rparr>)"
      using none by (simp only: post_handler_eq v i t) simp
    have len: "length ?rows = length ts"
      using arg_cong [OF vals, of length] by simp
    have tool: "map ai_tool ?rows = ts"
      using arg_cong [OF vals, of "map (\<lambda>v. fst (snd (snd v)))"]
      by (simp add: values_of_def comp_def)
    have un: "map user_name ?rows = replicate (length ts) u"
      using arg_cong [OF vals, of "map fst"]
      by (simp add: values_of_def comp_def map_replicate_const)
    have at: "map assignment_title ?rows = replicate (length ts) a"
      using arg_cong [OF vals, of "map (\<lambda>v. fst (snd v))"]
      by (simp add: values_of_def comp_def map_replicate_const)
    have up: "map usage_purpose ?rows = replicate (length ts) p"
      using arg_cong [OF vals, of "map (\<lambda>v. fst (snd (snd (snd v))))"]
      by (simp add: values_of_def comp_def map_replicate_const)
    have ac: "map ai_content ?rows = replicate (length ts) c"
      using arg_cong [OF vals, of "map (\<lambda>v. fst (snd (snd (snd (snd v)))))"]
      by (simp add: values_of_def comp_def map_replicate_const)
    have sp: "map screenshot_path ?rows = replicate (length ts) ?sp"
      using arg_cong [OF vals, of "map (\<lambda>v. snd (snd (snd (snd (snd v)))))"]
      by (simp add: values_of_def comp_def map_replicate_const)
    have d: "db (post_handler e req w) = db w @ ?rows"
      by (simp add: h res_json_def emit_def)
    have "responses (trace (post_handler e req w)) =
               responses (trace w) @
                 [\<lparr>status = 201, success = True,
                   message = Some (''Successfully created '' @ show_nat (length ts)
                                   @ '' declaration(s)''),
                   error = None, count_field = None, data = None\<rparr>]"
      by (simp add: h res_json_def emit_def responses_append responses_map_Query created_def)
    with d len tool un at up ac sp show ?thesis by blast
  qed
  from q r show ?thesis by blast
qed

theorem C1_witness:
  \<open>queries (trace (post_handler demo_env \<lparr>body = alice, req_file = None\<rparr> empty_world)) =
      [(JString ''Alice'', JString ''Essay 1'', JString ''ChatGPT'',
        JString ''brainstorming'', JString ''outline'', None),
       (JString ''Alice'', JString ''Essay 1'', JString ''Grammarly'',
        JString ''brainstorming'', JString ''outline'', None)]
   \<and> (\<exists>rows.
      db (post_handler demo_env \<lparr>body = alice, req_file = None\<rparr> empty_world) = rows
    \<and> length rows = 2
    \<and> map ai_tool rows = [JString ''ChatGPT'', JString ''Grammarly'']
    \<and> map user_name rows = [JString ''Alice'', JString ''Alice'']
    \<and> map assignment_title rows = [JString ''Essay 1'', JString ''Essay 1'']
    \<and> map usage_purpose rows = [JString ''brainstorming'', JString ''brainstorming'']
    \<and> map ai_content rows = [JString ''outline'', JString ''outline'']
    \<and> map screenshot_path rows = [None, None]
    \<and> responses (trace (post_handler demo_env \<lparr>body = alice, req_file = None\<rparr> empty_world)) =
        [\<lparr>status = 201, success = True, message = Some ''Successfully created 2 declaration(s)'',
          error = None, count_field = None, data = None\<rparr>])\<close>
proof -
  have k: "all_committed (insert_outcome demo_env) (length [JString ''ChatGPT'', JString ''Grammarly''])"
    by (simp add: all_committed_def demo_env_def)
  have b: \<open>body \<lparr>body = alice, req_file = None\<rparr> =
             \<lparr>userName = Some (JString ''Alice''), assignmentTitle = Some (JString ''Essay 1''),
              aiTools = Some (JString ''["ChatGPT","Grammarly"]''),
              usagePurpose = Some (JString ''brainstorming''),
              aiContent = Some (JString ''outline'')\<rparr>\<close>
    by (simp add: alice_def)
  from C1_one_row_per_tool [OF b _ _ _ _ parse_two, of demo_env empty_world] k
  show ?thesis
    by (simp add: empty_world_def show_nat_small)
qed

text \<open>
  C2 as stated fails: the handler never looks at the elements of the parsed array, so
  \<open>aiTools = [1]\<close>, which is not a list of strings, is not answered with 400; the row is
  inserted and the answer is 201.
\<close>

theorem C2_counterexample:
  "\<not> string_list ''[1]''
   \<and> responses (trace (post_handler demo_env \<lparr>body = number_tools, req_file = None\<rparr> empty_world)) =
       [\<lparr>status = 201, success = True, message = Some ''Successfully created 1 declaration(s)'',
         error = None, count_field = None, data = None\<rparr>]
   \<and> db (post_handler demo_env \<lparr>body = number_tools, req_file = None\<rparr> empty_world) =
       [\<lparr>decl_id = 1, user_name = JString ''Alice'', assignment_title = JString ''Essay 1'',
         ai_tool = JNumber ''1'', usage_purpose = JString ''brainstorming'',
         ai_content = JString ''outline'',
         screenshot_path = None, created_at = 1700000000\<rparr>]"
proof -
  have a: "\<not> string_list ''[1]''"
    by (simp add: string_list_def parse_number is_string_def)
  have i: "inserts_of e \<lparr>body = number_tools, req_file = None\<rparr> =
      [(JString ''Alice'', JString ''Essay 1'', JNumber ''1'',
        JString ''brainstorming'', JString ''outline'', None)]" for e
    by (simp add: inserts_of_def tools_number_tools) (simp add: number_tools_def alice_def bound_def)
  show ?thesis
    using a
    by (simp add: post_handler_stored [OF stored_no_file] passes_number_tools tools_number_tools i
        demo_env_def empty_world_def created_def show_nat_small stored_def)
qed

text \<open>
  C2, amended. With the uploaded file (if any) on the disk, the POST handler answers 400
  and issues no insert exactly when validation fails, where validation fails when one of
  \<open>userName\<close>, \<open>assignmentTitle\<close>, \<open>aiTools\<close>, \<open>usagePurpose\<close>, \<open>aiContent\<close> is missing or
  falsy (for a text: empty), or \<open>aiTools\<close> does not parse as a non-empty JSON array (of any
  elements). Every request that passes issues one INSERT per element of the array.
\<close>

theorem C2_rejected_iff_validation_fails:
  assumes "stored_upload req w"
  shows "(((\<exists>r. responses (trace (post_handler e req w)) = responses (trace w) @ [r] \<and> status r = 400)
           \<and> db (post_handler e req w) = db w
           \<and> queries (trace (post_handler e req w)) = queries (trace w))
          \<longleftrightarrow> \<not> passes_validation e (body req))
       \<and> (passes_validation e (body req) \<longrightarrow>
            tools_of e (body req) \<noteq> [] \<and>
            queries (trace (post_handler e req w)) =
              queries (trace w) @
                map (\<lambda>tool. (bound (userName (body req)), bound (assignmentTitle (body req)), tool,
                              bound (usagePurpose (body req)), bound (aiContent (body req)),
                              map_option (\<lambda>f. ''/uploads/'' @ filename f) (req_file req)))
                  (tools_of e (body req)))"
proof (cases "passes_validation e (body req)")
  case False
  then show ?thesis
    by (simp add: post_handler_stored [OF assms] responses_append queries_append bad_request_def)
next
  case True
  have q: "queries (trace (post_handler e req w)) = queries (trace w) @ inserts_of e req"
    using True
    by (simp add: post_handler_stored [OF assms] queries_append queries_Query split: option.splits)
  have "\<exists>r. responses (trace (post_handler e req w)) = responses (trace w) @ [r] \<and> status r \<noteq> 400"
    using True
    by (simp add: post_handler_stored [OF assms] responses_append responses_Query
        create_failed_def created_def split: option.splits)
  then have "\<not> (\<exists>r. responses (trace (post_handler e req w)) = responses (trace w) @ [r] \<and> status r = 400)"
    by auto
  with True q tools_of_nonempty [OF True] show ?thesis
    by (simp add: inserts_of_def)
qed

theorem C2_witness:
  "\<not> passes_validation demo_env no_tools
   \<and> (\<exists>r. responses (trace (post_handler demo_env \<lparr>body = no_tools, req_file = None\<rparr> empty_world)) = [r]
           \<and> status r = 400)
   \<and> db (post_handler demo_env \<lparr>body = no_tools, req_file = None\<rparr> empty_world) = []
   \<and> queries (trace (post_handler demo_env \<lparr>body = no_tools, req_file = None\<rparr> empty_world)) = []
   \<and> passes_validation demo_env alice
   \<and> queries (trace (post_handler demo_env \<lparr>body = alice, req_file = None\<rparr> empty_world)) =
       [(JString ''Alice'', JString ''Essay 1'', JString ''ChatGPT'',
         JString ''brainstorming'', JString ''outline'', None),
        (JString ''Alice'', JString ''Essay 1'', JString ''Grammarly'',
         JString ''brainstorming'', JString ''outline'', None)]"
proof -
  from C2_rejected_iff_validation_fails
         [where req = "\<lparr>body = no_tools, req_file = None\<rparr>" and w = empty_world and e = demo_env,
          OF stored_no_file]
       fails_no_tools
  have 1: "(\<exists>r. responses (trace (post_handler demo_env \<lparr>body = no_tools, req_file = None\<rparr> empty_world)) = [r]
           \<and> status r = 400)
   \<and> db (post_handler demo_env \<lparr>body = no_tools, req_file = None\<rparr> empty_world) = []
   \<and> queries (trace (post_handler demo_env \<lparr>body = no_tools, req_file = None\<rparr> empty_world)) = []"
    by (simp add: empty_world_def)
  from C2_rejected_iff_validation_fails
         [where req = "\<lparr>body = alice, req_file = None\<rparr>" and w = empty_world and e = demo_env,
          OF stored_no_file]
       passes_alice
  have 2: "queries (trace (post_handler demo_env \<lparr>body = alice, req_file = None\<rparr> empty_world)) =
       [(JString ''Alice'', JString ''Essay 1'', JString ''ChatGPT'',
         JString ''brainstorming'', JString ''outline'', None),
        (JString ''Alice'', JString ''Essay 1'', JString ''Grammarly'',
         JString ''brainstorming'', JString ''outline'', None)]"
    by (simp add: empty_world_def tools_alice) (simp add: alice_def bound_def)
  from 1 2 fails_no_tools [of demo_env] passes_alice [of demo_env] show ?thesis by simp
qed

text \<open>
  C3. When the query succeeds, GET /api/declarations answers 200 with \<open>success: true\<close>, a
  \<open>data\<close> list that holds every row of the table exactly once (nothing is filtered out,
  nothing is cut off), ordered by \<open>created_at\<close> descending, and a \<open>count\<close> equal to the length
  of \<open>data\<close>; the table is unchanged. The handler reads nothing from the request.
\<close>

theorem C3_get_returns_every_row_newest_first:
  assumes "select_outcome e = None"
  shows "\<exists>rows.
           responses (trace (get_handler e w)) =
             responses (trace w) @
               [\<lparr>status = 200, success = True, message = None, error = None,
                 count_field = Some (length rows), data = Some rows\<rparr>]
         \<and> mset rows = mset (db w)
         \<and> sorted_wrt (\<lambda>r s. created_at s \<le> created_at r) rows
         \<and> db (get_handler e w) = db w"
proof -
  have "responses (trace (get_handler e w)) =
          responses (trace w) @
            [\<lparr>status = 200, success = True, message = None, error = None,
              count_field = Some (length (select_all (db w))), data = Some (select_all (db w))\<rparr>]"
    and "db (get_handler e w) = db w"
    using assms by (simp_all add: get_handler_def Let_def res_json_def emit_def responses_append)
  with mset_select_all [of "db w"] sorted_desc_select_all [of "db w"] show ?thesis
    by blast
qed

theorem C3_witness:
  "(\<exists>rows.
      responses (trace (get_handler demo_env three_rows)) =
        [\<lparr>status = 200, success = True, message = None, error = None,
          count_field = Some (length rows), data = Some rows\<rparr>]
    \<and> mset rows = mset [sample 1 5, sample 2 9, sample 3 5]
    \<and> sorted_wrt (\<lambda>r s. created_at s \<le> created_at r) rows)
   \<and> responses (trace (get_handler demo_env three_rows)) =
        [\<lparr>status = 200, success = True, message = None, error = None,
          count_field = Some 3, data = Some [sample 2 9, sample 1 5, sample 3 5]\<rparr>]"
proof -
  have h: "select_outcome demo_env = None" by (simp add: demo_env_def)
  have "responses (trace (get_handler demo_env three_rows)) =
        [\<lparr>status = 200, success = True, message = None, error = None,
          count_field = Some 3, data = Some [sample 2 9, sample 1 5, sample 3 5]\<rparr>]"
    by (simp add: get_handler_def h three_rows_def res_json_def emit_def select_all_def
        sample_def stored_def)
  with C3_get_returns_every_row_newest_first [OF h, of three_rows] show ?thesis
    by (simp add: three_rows_def)
qed

text \<open>
  C4 as stated fails: the group of a row is decided by the string
  \<open>user_name-assignment_title-created_at\<close>, and two different triples can give the same
  string. The rows of Ann-Marie (assignment Lab) and of Ann (assignment Marie-Lab), created
  at the same time, land in one group.
\<close>

theorem C4_counterexample:
  "(user_name ann_marie, assignment_title ann_marie, created_at ann_marie) \<noteq>
   (user_name ann, assignment_title ann, created_at ann)
   \<and> groupedDeclarations [ann_marie, ann] =
       Inr [(''Ann-Marie-Lab-2024-05-01T10:00:00.000Z'', [ann_marie, ann])]
   \<and> Object_values [(''Ann-Marie-Lab-2024-05-01T10:00:00.000Z'', [ann_marie, ann])] =
       [[ann_marie, ann]]"
proof -
  have k: "group_key ann_marie = ''Ann-Marie-Lab-2024-05-01T10:00:00.000Z''"
    "group_key ann = ''Ann-Marie-Lab-2024-05-01T10:00:00.000Z''"
    by (simp_all add: group_key_def ann_marie_def ann_def)
  have g: "groupedDeclarations [ann_marie, ann] =
       Inr [(''Ann-Marie-Lab-2024-05-01T10:00:00.000Z'', [ann_marie, ann])]"
    by (simp add: groupedDeclarations_eq groups_of_def k)
  have "Object_values (groups_of [ann_marie, ann]) = [[ann_marie, ann]]"
    by (simp add: Object_values_groups_of k)
  then have o: "Object_values [(''Ann-Marie-Lab-2024-05-01T10:00:00.000Z'', [ann_marie, ann])] =
       [[ann_marie, ann]]"
    by (simp add: groups_of_def k)
  have n: "user_name ann_marie \<noteq> user_name ann"
    by (simp add: ann_marie_def ann_def)
  from g o n show ?thesis by simp
qed

text \<open>
  C4, amended. Grouping never throws, and the groups shown are the classes of the key
  string \<open>user_name-assignment_title-created_at\<close>: one group per distinct key, in the order
  in which the keys first occur in the fetched list, each group holding the rows of its key
  in fetched order. So the groups partition the list (every row is in exactly one group,
  and the groups together hold each row as often as the list does), and a row of the list
  is in the group of another row exactly when their keys are equal. Rows with equal
  \<open>(user_name, assignment_title, created_at)\<close> have equal keys.
\<close>

theorem C4_groups_are_the_key_classes:
  "\<exists>grouped.
       groupedDeclarations ds = Inr grouped
     \<and> Object_values grouped =
         map (\<lambda>k. filter (\<lambda>d. group_key d = k) ds) (first_seen (map group_key ds))
     \<and> mset (concat (Object_values grouped)) = mset ds
     \<and> (\<forall>d \<in> set ds. \<exists>!g. g \<in> set (Object_values grouped) \<and> d \<in> set g)
     \<and> (\<forall>g \<in> set (Object_values grouped). \<forall>d \<in> set g. \<forall>d' \<in> set ds.
           d' \<in> set g \<longleftrightarrow> group_key d' = group_key d)
     \<and> (\<forall>d d'. user_name d = user_name d' \<and> assignment_title d = assignment_title d'
                  \<and> created_at d = created_at d' \<longrightarrow> group_key d = group_key d')"
proof -
  let ?gs = "map (\<lambda>k. filter (\<lambda>d. group_key d = k) ds) (first_seen (map group_key ds))"
  have v: "Object_values (groups_of ds) = ?gs" by (rule Object_values_groups_of)
  have m: "mset (concat ?gs) = mset ds"
    by (rule mset_concat_classes) simp_all
  have "\<exists>!g. g \<in> set ?gs \<and> d \<in> set g" if "d \<in> set ds" for d
  proof
    show "filter (\<lambda>x. group_key x = group_key d) ds \<in> set ?gs \<and>
          d \<in> set (filter (\<lambda>x. group_key x = group_key d) ds)"
      using that by auto
  next
    fix g
    assume "g \<in> set ?gs \<and> d \<in> set g"
    then show "g = filter (\<lambda>x. group_key x = group_key d) ds" by auto
  qed
  then have u: "\<forall>d \<in> set ds. \<exists>!g. g \<in> set ?gs \<and> d \<in> set g" by blast
  have c: "\<forall>g \<in> set ?gs. \<forall>d \<in> set g. \<forall>d' \<in> set ds. d' \<in> set g \<longleftrightarrow> group_key d' = group_key d"
    by auto
  have t: "\<forall>d d'. user_name d = user_name d' \<and> assignment_title d = assignment_title d'
                  \<and> created_at d = created_at d' \<longrightarrow> group_key d = group_key d'"
    by (simp add: group_key_def)
  from groupedDeclarations_eq [of ds] m u c t show ?thesis
    unfolding v [symmetric] by (intro exI [of _ "groups_of ds"] conjI) (rule refl | assumption)+
qed

theorem C4_witness:
  "\<exists>grouped.
       groupedDeclarations [alice_chatgpt, bob, alice_grammarly] = Inr grouped
     \<and> Object_values grouped = [[alice_chatgpt, alice_grammarly], [bob]]
     \<and> mset (concat (Object_values grouped)) = mset [alice_chatgpt, bob, alice_grammarly]"
proof -
  have k: "group_key alice_chatgpt = ''Alice-Essay 1-2024-05-02T09:30:00.000Z''"
    "group_key alice_grammarly = ''Alice-Essay 1-2024-05-02T09:30:00.000Z''"
    "group_key bob = ''Bob-Essay 1-2024-05-02T09:30:00.000Z''"
    by (simp_all add: group_key_def alice_chatgpt_def alice_grammarly_def bob_def)
  from C4_groups_are_the_key_classes [of "[alice_chatgpt, bob, alice_grammarly]"]
  obtain grouped where
    "groupedDeclarations [alice_chatgpt, bob, alice_grammarly] = Inr grouped"
    "Object_values grouped =
       map (\<lambda>k. filter (\<lambda>d. group_key d = k) [alice_chatgpt, bob, alice_grammarly])
         (first_seen (map group_key [alice_chatgpt, bob, alice_grammarly]))"
    "mset (concat (Object_values grouped)) = mset [alice_chatgpt, bob, alice_grammarly]"
    by blast
  then show ?thesis
    by (intro exI [of _ grouped]) (simp add: k)
qed

text \<open>
  C5. The claim holds for the documented allow-list and the code breaks it. The filter
  accepts an image of the allow-list (\<open>shot.png\<close>, \<open>image/png\<close>), as it should; but the pattern
  \<open>/jpeg|jpg|png|gif|webp/\<close> has no anchors, so the filter also accepts a file whose
  extension \<open>.pngx\<close> and whose MIME type \<open>application/x-pngx\<close> are not in the allow-list: the
  file is stored, the rows are created and the answer is 201.
\<close>

theorem C5_filter_accepts_a_file_outside_the_allow_list:
  "allowed_extension (toLowerCase (extname (originalname shot)))
   \<and> allowed_mimetype (mimetype shot)
   \<and> fileFilter shot = Inr True
   \<and> toLowerCase (extname (originalname odd_upload)) = ''.pngx''
   \<and> \<not> allowed_extension ''.pngx''
   \<and> \<not> allowed_mimetype (mimetype odd_upload)
   \<and> fileFilter odd_upload = Inr True
   \<and> disk (POST_declarations demo_env \<lparr>text_fields = alice, screenshot = Some odd_upload\<rparr> empty_world) =
       {''/app/server/uploads/screenshot-1700000000000-123456789.pngx''}
   \<and> map ai_tool
        (db (POST_declarations demo_env \<lparr>text_fields = alice, screenshot = Some odd_upload\<rparr> empty_world)) =
       [JString ''ChatGPT'', JString ''Grammarly'']
   \<and> responses
        (trace (POST_declarations demo_env \<lparr>text_fields = alice, screenshot = Some odd_upload\<rparr> empty_world)) =
       [\<lparr>status = 201, success = True, message = Some ''Successfully created 2 declaration(s)'',
         error = None, count_field = None, data = None\<rparr>]"
proof -
  let ?f = "\<lparr>path = ''/app/server/uploads/screenshot-1700000000000-123456789.pngx'',
             filename = ''screenshot-1700000000000-123456789.pngx''\<rparr>"
  let ?w = "\<lparr>db = [], disk = {''/app/server/uploads/screenshot-1700000000000-123456789.pngx''},
             trace = []\<rparr>"
  have e: "extname ''notes.pngx'' = ''.pngx''"
    by (simp add: extname_def last_segment_def Let_def)
  have u: "upload_single demo_env (Some odd_upload) empty_world = Inr (Some ?f, ?w)"
    by (simp add: upload_single_def odd_filter fileSize_limit_def)
       (simp add: odd_upload_def e demo_env_def empty_world_def Let_def)
  have s: "stored_upload \<lparr>body = alice, req_file = Some ?f\<rparr> ?w"
    by (simp add: stored_upload_def)
  have n: "first_rejection (insert_outcome demo_env) 0 k = None" for k
    by (simp add: first_rejection_None demo_env_def)
  have p: "POST_declarations demo_env \<lparr>text_fields = alice, screenshot = Some odd_upload\<rparr> empty_world =
      ?w\<lparr>db := db ?w @ committed (insert_outcome demo_env) 0
                         (inserts_of demo_env \<lparr>body = alice, req_file = Some ?f\<rparr>),
         trace := trace ?w @ map Query (inserts_of demo_env \<lparr>body = alice, req_file = Some ?f\<rparr>)
                  @ [Respond (created (length (tools_of demo_env alice)))]\<rparr>"
    by (simp add: POST_declarations_def u post_handler_stored [OF s] passes_alice n)
  have i: "inserts_of e \<lparr>body = alice, req_file = Some ?f\<rparr> =
     [(JString ''Alice'', JString ''Essay 1'', JString ''ChatGPT'',
       JString ''brainstorming'', JString ''outline'',
       Some ''/uploads/screenshot-1700000000000-123456789.pngx''),
      (JString ''Alice'', JString ''Essay 1'', JString ''Grammarly'',
       JString ''brainstorming'', JString ''outline'',
       Some ''/uploads/screenshot-1700000000000-123456789.pngx'')]" for e
    by (simp add: inserts_of_def tools_alice) (simp add: alice_def bound_def)
  have odd: "toLowerCase (extname (originalname odd_upload)) = ''.pngx''
     \<and> \<not> allowed_extension ''.pngx''
     \<and> \<not> allowed_mimetype (mimetype odd_upload)
     \<and> fileFilter odd_upload = Inr True
     \<and> disk (POST_declarations demo_env \<lparr>text_fields = alice, screenshot = Some odd_upload\<rparr> empty_world) =
         {''/app/server/uploads/screenshot-1700000000000-123456789.pngx''}
     \<and> map ai_tool
          (db (POST_declarations demo_env \<lparr>text_fields = alice, screenshot = Some odd_upload\<rparr> empty_world)) =
         [JString ''ChatGPT'', JString ''Grammarly'']
     \<and> responses
          (trace (POST_declarations demo_env \<lparr>text_fields = alice, screenshot = Some odd_upload\<rparr> empty_world)) =
         [\<lparr>status = 201, success = True, message = Some ''Successfully created 2 declaration(s)'',
           error = None, count_field = None, data = None\<rparr>]"
    by (simp add: p i tools_alice odd_filter)
       (simp add: odd_upload_def odd_extension allowed_extension_def allowed_mimetype_def
        demo_env_def stored_def created_def show_nat_small)
  have good: "allowed_extension (toLowerCase (extname (originalname shot)))"
    "allowed_mimetype (mimetype shot)"
    by (simp_all add: shot_def extname_def last_segment_def toLowerCase_def to_lower_def Let_def
        allowed_extension_def allowed_mimetype_def)
  then have "fileFilter shot = Inr True" by (rule allow_list_accepted)
  with good odd show ?thesis by simp
qed




text \<open>
  C7 as stated fails: when an insert is rejected, the \<open>catch\<close> block of the handler deletes
  the uploaded file. Here the second of two inserts is rejected: the first row stays in the
  table, pointing to a screenshot that is no longer on the disk.
\<close>

theorem C7_counterexample:
  "disk (POST_declarations failing_env \<lparr>text_fields = alice, screenshot = Some shot\<rparr> empty_world) = {}
   \<and> trace (POST_declarations failing_env \<lparr>text_fields = alice, screenshot = Some shot\<rparr> empty_world) =
       [Query (JString ''Alice'', JString ''Essay 1'', JString ''ChatGPT'',
               JString ''brainstorming'', JString ''outline'',
               Some ''/uploads/screenshot-1700000000000-123456789.png''),
        Query (JString ''Alice'', JString ''Essay 1'', JString ''Grammarly'',
               JString ''brainstorming'', JString ''outline'',
               Some ''/uploads/screenshot-1700000000000-123456789.png''),
        ConsoleError ''Lost connection to MySQL server during query'',
        Unlink ''/app/server/uploads/screenshot-1700000000000-123456789.png'',
        Respond \<lparr>status = 500, success = False, message = Some ''Failed to create declaration'',
                  error = Some ''Lost connection to MySQL server during query'',
                  count_field = None, data = None\<rparr>]
   \<and> db (POST_declarations failing_env \<lparr>text_fields = alice, screenshot = Some shot\<rparr> empty_world) =
       [\<lparr>decl_id = 1, user_name = JString ''Alice'', assignment_title = JString ''Essay 1'',
         ai_tool = JString ''ChatGPT'', usage_purpose = JString ''brainstorming'',
         ai_content = JString ''outline'',
         screenshot_path = Some ''/uploads/screenshot-1700000000000-123456789.png'',
         created_at = 1700000000\<rparr>]"
  by (simp add: POST_declarations_def upload_shot post_handler_stored [OF stored_shot]
      passes_alice inserts_alice_shot failing_first_rejection del: first_rejection.simps)
     (simp add: shot_world_def shot_file_def uploaded_def unlink_events_def create_failed_def
      failing_env_def demo_env_def stored_def)

text \<open>
  C7, amended. When validation passes, a file was stored and some insert is rejected with
  message \<open>msg\<close>: the rows of the inserts that were committed stay in the table and the
  handler issues nothing but the INSERTs; it logs the error, deletes the stored file and
  then answers 500.
\<close>

theorem C7_insert_failure_keeps_rows_deletes_file:
  assumes "req_file req = Some f" and "path f \<in> disk w" and "passes_validation e (body req)"
    and "first_rejection (insert_outcome e) 0 (length (tools_of e (body req))) = Some msg"
  shows "db (post_handler e req w) = db w @ committed (insert_outcome e) 0 (inserts_of e req)
         \<and> trace (post_handler e req w) =
             trace w @ map Query (inserts_of e req) @
               [ConsoleError msg, Unlink (path f),
                Respond \<lparr>status = 500, success = False,
                          message = Some ''Failed to create declaration'',
                          error = Some msg, count_field = None, data = None\<rparr>]
         \<and> disk (post_handler e req w) = disk w - {path f}"
proof -
  from assms(1,2) have s: "stored_upload req w" by (simp add: stored_upload_def)
  have l: "length (inserts_of e req) = length (tools_of e (body req))"
    by (simp add: inserts_of_def)
  from assms(1,3,4) show ?thesis
    by (simp add: post_handler_stored [OF s] l unlink_events_def uploaded_def create_failed_def)
qed

theorem C7_witness:
  "db (post_handler failing_env \<lparr>body = alice, req_file = Some shot_file\<rparr> shot_world) =
       [\<lparr>decl_id = 1, user_name = JString ''Alice'', assignment_title = JString ''Essay 1'',
         ai_tool = JString ''ChatGPT'', usage_purpose = JString ''brainstorming'',
         ai_content = JString ''outline'',
         screenshot_path = Some ''/uploads/screenshot-1700000000000-123456789.png'',
         created_at = 1700000000\<rparr>]
   \<and> responses (trace (post_handler failing_env \<lparr>body = alice, req_file = Some shot_file\<rparr> shot_world)) =
       [\<lparr>status = 500, success = False, message = Some ''Failed to create declaration'',
         error = Some ''Lost connection to MySQL server during query'',
         count_field = None, data = None\<rparr>]
   \<and> disk (post_handler failing_env \<lparr>body = alice, req_file = Some shot_file\<rparr> shot_world) = {}"
proof -
  have f: "req_file \<lparr>body = alice, req_file = Some shot_file\<rparr> = Some shot_file" by simp
  have d: "path shot_file \<in> disk shot_world" by (simp add: shot_world_def)
  have p: "passes_validation failing_env (body \<lparr>body = alice, req_file = Some shot_file\<rparr>)"
    by (simp add: passes_alice)
  have r: "first_rejection (insert_outcome failing_env) 0
             (length (tools_of failing_env (body \<lparr>body = alice, req_file = Some shot_file\<rparr>))) =
           Some ''Lost connection to MySQL server during query''"
    by (simp add: tools_alice failing_first_rejection del: first_rejection.simps)
  from C7_insert_failure_keeps_rows_deletes_file [OF f d p r]
  show ?thesis
    by (simp add: inserts_alice_shot responses_append)
       (simp add: shot_world_def shot_file_def failing_env_def demo_env_def stored_def)
qed

text \<open>
  C8. The claim holds for \<open>errorResponse\<close> and for the error middleware, and the two route
  handlers break it: with \<open>NODE_ENV = production\<close> the 500 responses of GET and POST carry
  the message of the underlying error, where \<open>errorResponse\<close> sends the message alone.
\<close>

theorem C8_error_detail_sent_outside_development:
  "NODE_ENV outage_env = Some ''production''
   \<and> responses (trace (get_handler outage_env empty_world)) =
       [\<lparr>status = 500, success = False, message = Some ''Failed to fetch declarations'',
         error = Some ''connect ECONNREFUSED 127.0.0.1:3306'', count_field = None, data = None\<rparr>]
   \<and> errorResponse outage_env ''Failed to fetch declarations'' 500
         (Some ''connect ECONNREFUSED 127.0.0.1:3306'') =
       \<lparr>status = 500, success = False, message = Some ''Failed to fetch declarations'',
        error = None, count_field = None, data = None\<rparr>
   \<and> NODE_ENV failing_env = Some ''production''
   \<and> responses (trace (post_handler failing_env \<lparr>body = alice, req_file = None\<rparr> empty_world)) =
       [\<lparr>status = 500, success = False, message = Some ''Failed to create declaration'',
         error = Some ''Lost connection to MySQL server during query'',
         count_field = None, data = None\<rparr>]"
proof -
  have "first_rejection (insert_outcome failing_env) 0 (Suc (Suc 0)) =
          Some ''Lost connection to MySQL server during query''"
    by (simp add: failing_env_def demo_env_def)
  then have "responses (trace (post_handler failing_env \<lparr>body = alice, req_file = None\<rparr> empty_world)) =
       [\<lparr>status = 500, success = False, message = Some ''Failed to create declaration'',
         error = Some ''Lost connection to MySQL server during query'',
         count_field = None, data = None\<rparr>]"
    by (simp add: post_handler_stored [OF stored_no_file] passes_alice inserts_of_def tools_alice
          del: first_rejection.simps)
       (simp add: empty_world_def responses_append responses_map_Query unlink_events_def
          create_failed_def)
  then show ?thesis
    by (simp add: outage_env_def demo_env_def failing_env_def get_handler_def res_json_def
        emit_def empty_world_def errorResponse_def falsy_def)
qed

text \<open>
  C9. When validation fails and a file was received and is on the disk, the POST handler
  deletes the file and then sends the 400 response; afterwards the file is not on the disk
  and the table is unchanged.
\<close>

theorem C9_rejected_upload_is_deleted:
  assumes "req_file req = Some f" and "path f \<in> disk w" and "\<not> passes_validation e (body req)"
  shows "trace (post_handler e req w) =
           trace w @
             [Unlink (path f),
              Respond \<lparr>status = 400, success = False,
                        message = Some (rejection_message (body req)),
                        error = None, count_field = None, data = None\<rparr>]
         \<and> path f \<notin> disk (post_handler e req w)
         \<and> db (post_handler e req w) = db w"
proof -
  from assms(1,2) have s: "stored_upload req w" by (simp add: stored_upload_def)
  from assms(1,3) show ?thesis
    by (simp add: post_handler_stored [OF s] unlink_events_def uploaded_def bad_request_def)
qed

theorem C9_witness:
  "trace (post_handler demo_env \<lparr>body = no_tools, req_file = Some shot_file\<rparr> shot_world) =
     [Unlink ''/app/server/uploads/screenshot-1700000000000-123456789.png'',
      Respond \<lparr>status = 400, success = False, message = Some ''Invalid AI tools format'',
                error = None, count_field = None, data = None\<rparr>]
   \<and> disk (post_handler demo_env \<lparr>body = no_tools, req_file = Some shot_file\<rparr> shot_world) = {}
   \<and> db (post_handler demo_env \<lparr>body = no_tools, req_file = Some shot_file\<rparr> shot_world) = []"
proof -
  have f: "req_file \<lparr>body = no_tools, req_file = Some shot_file\<rparr> = Some shot_file" by simp
  have d: "path shot_file \<in> disk shot_world" by (simp add: shot_world_def)
  have p: "\<not> passes_validation demo_env (body \<lparr>body = no_tools, req_file = Some shot_file\<rparr>)"
    by (simp add: fails_no_tools)
  have m: "rejection_message no_tools = ''Invalid AI tools format''"
    by (simp add: rejection_message_def no_tools_def alice_def falsy_value_def)
  have k: "disk (post_handler demo_env \<lparr>body = no_tools, req_file = Some shot_file\<rparr> shot_world) = {}"
    using p by (simp add: post_handler_stored [OF stored_shot]) (simp add: uploaded_def shot_world_def)
  from C9_rejected_upload_is_deleted [OF f d p] k
  show ?thesis
    by (simp add: m) (simp add: shot_world_def shot_file_def)
qed

text \<open>
  C10. When the list is displayed, there is one card per group, and every field of a card
  except the tool badges is read from the first row of its group, which is the first row
  of the fetched list with the group's key: title, user, formatted date, purpose, content
  and screenshot (shown when the path is neither \<open>null\<close> nor empty). The later rows of the
  group contribute their \<open>ai_tool\<close> to the badges and nothing else.
\<close>

theorem C10_card_shows_the_first_row:
  assumes "\<not> loading st" and "page_error st = []"
  shows "\<exists>grouped cards.
           groupedDeclarations (declarations st) = Inr grouped
         \<and> declarations_list formatDate st = Inr cards
         \<and> length cards = length (Object_values grouped)
         \<and> (\<forall>i < length cards. \<exists>first rest.
               Object_values grouped ! i = first # rest
             \<and> find (\<lambda>d. group_key d = group_key first) (declarations st) = Some first
             \<and> cards ! i =
                 \<lparr>heading = assignment_title first, user_info = user_name first,
                  date_badge = formatDate (created_at first),
                  tool_badges = map ai_tool (first # rest),
                  purpose = usage_purpose first, content_text = ai_content first,
                  screenshot_image =
                    (if falsy (screenshot_path first) then None else screenshot_path first)\<rparr>)"
proof -
  let ?ds = "declarations st"
  let ?gs = "Object_values (groups_of ?ds)"
  have gs: "?gs = map (\<lambda>k. filter (\<lambda>d. group_key d = k) ?ds) (first_seen (map group_key ?ds))"
    by (rule Object_values_groups_of)
  have ne: "\<forall>g \<in> set ?gs. \<exists>f r. g = f # r \<and> find (\<lambda>d. group_key d = group_key f) ?ds = Some f"
    unfolding gs by (blast dest: key_class_nonempty)
  then have "\<forall>g \<in> set ?gs. \<exists>c. render_card formatDate g = Inr c"
    by (metis render_card_Cons)
  then obtain cards where cards: "map_results (render_card formatDate) ?gs = Inr cards"
    "length cards = length ?gs" "\<forall>i < length ?gs. render_card formatDate (?gs ! i) = Inr (cards ! i)"
    using map_results_all [of ?gs "render_card formatDate"] by blast
  have shown: "declarations_list formatDate st = Inr cards"
  proof (cases "?ds = []")
    case True
    with gs have "?gs = []" by simp
    with cards(1) have "cards = []" by simp
    with True show ?thesis
      by (simp add: declarations_list_def groupedDeclarations_eq)
  next
    case False
    with assms cards(1) show ?thesis
      by (simp add: declarations_list_def groupedDeclarations_eq)
  qed
  have each: "\<exists>first rest.
               ?gs ! i = first # rest
             \<and> find (\<lambda>d. group_key d = group_key first) ?ds = Some first
             \<and> cards ! i =
                 \<lparr>heading = assignment_title first, user_info = user_name first,
                  date_badge = formatDate (created_at first),
                  tool_badges = map ai_tool (first # rest),
                  purpose = usage_purpose first, content_text = ai_content first,
                  screenshot_image =
                    (if falsy (screenshot_path first) then None else screenshot_path first)\<rparr>"
    if "i < length cards" for i
  proof -
    from that cards(2) have i: "i < length ?gs" by simp
    then have "?gs ! i \<in> set ?gs" by (rule nth_mem)
    with ne obtain f r where fr: "?gs ! i = f # r"
      "find (\<lambda>d. group_key d = group_key f) ?ds = Some f"
      by blast
    from cards(3) i have "render_card formatDate (?gs ! i) = Inr (cards ! i)" by blast
    with fr(1) have "cards ! i =
        \<lparr>heading = assignment_title f, user_info = user_name f,
         date_badge = formatDate (created_at f), tool_badges = map ai_tool (f # r),
         purpose = usage_purpose f, content_text = ai_content f,
         screenshot_image = (if falsy (screenshot_path f) then None else screenshot_path f)\<rparr>"
      by (simp add: render_card_Cons)
    with fr show ?thesis by blast
  qed
  from groupedDeclarations_eq [of ?ds] shown cards(2) each show ?thesis
    by blast
qed

theorem C10_witness:
  "(\<exists>grouped cards.
       groupedDeclarations (declarations home) = Inr grouped
     \<and> declarations_list day_of home = Inr cards
     \<and> length cards = length (Object_values grouped))
   \<and> declarations_list day_of home =
       Inr [\<lparr>heading = ''Essay 1'', user_info = ''Alice'', date_badge = ''2024-05-02'',
             tool_badges = [''ChatGPT'', ''Grammarly''], purpose = ''brainstorming'',
             content_text = ''outline'', screenshot_image = Some ''/uploads/screenshot-1.png''\<rparr>,
            \<lparr>heading = ''Essay 1'', user_info = ''Bob'', date_badge = ''2024-05-02'',
             tool_badges = [''Claude''], purpose = ''summary'',
             content_text = ''abstract'', screenshot_image = None\<rparr>]"
proof -
  have l: "\<not> loading home" and e: "page_error home = []"
    by (simp_all add: home_def)
  have k: "group_key alice_chatgpt = ''Alice-Essay 1-2024-05-02T09:30:00.000Z''"
    "group_key alice_grammarly = ''Alice-Essay 1-2024-05-02T09:30:00.000Z''"
    "group_key bob = ''Bob-Essay 1-2024-05-02T09:30:00.000Z''"
    by (simp_all add: group_key_def alice_chatgpt_def alice_grammarly_def bob_def)
  have v: "Object_values (groups_of [alice_chatgpt, bob, alice_grammarly]) =
             [[alice_chatgpt, alice_grammarly], [bob]]"
    by (simp add: Object_values_groups_of k)
  have c: "declarations_list day_of home =
       Inr [\<lparr>heading = ''Essay 1'', user_info = ''Alice'', date_badge = ''2024-05-02'',
             tool_badges = [''ChatGPT'', ''Grammarly''], purpose = ''brainstorming'',
             content_text = ''outline'', screenshot_image = Some ''/uploads/screenshot-1.png''\<rparr>,
            \<lparr>heading = ''Essay 1'', user_info = ''Bob'', date_badge = ''2024-05-02'',
             tool_badges = [''Claude''], purpose = ''summary'',
             content_text = ''abstract'', screenshot_image = None\<rparr>]"
    by (simp add: declarations_list_def home_def groupedDeclarations_eq v render_card_Cons)
       (simp add: alice_chatgpt_def alice_grammarly_def bob_def day_of_def falsy_def)
  from C10_card_shows_the_first_row [OF l e, of day_of] c show ?thesis
    by blast
qed

end
